(* ===== verification/Prelude.thy ===== *)
theory Prelude
  imports Main "HOL-Library.Stream"
begin

text \<open>
  Shared vocabulary of the thumbnail editor model: the JavaScript semantics the component
  \<open>Main\<close> of \<open>src/pages/main/index.tsx\<close> relies on (string indexing that yields the text
  \<open>undefined\<close> out of range, truthiness of an optional string in JSX), literal strings given
  by their UTF-8 bytes (the source's Korean placeholders), the bit length of a natural
  number used by the floating-point model, and the lemma collections the component
  theories share.
\<close>

named_theorems js_simps \<open>evaluation rules of the JavaScript helper semantics\<close>

section \<open>Strings\<close>

text \<open>
  A JavaScript string is modelled as a \<open>string\<close> (a list of characters). The only
  non-ASCII strings of the source are the Korean placeholders; they are given by their UTF-8
  bytes, so that equality and emptiness of the model agree with the source's strings.
\<close>

definition utf8 :: "nat list \<Rightarrow> string" where
  "utf8 bs = map char_of bs"

text \<open>
  \<open>s[i]\<close> on a string: the one-character string at an index in range, the value
  \<open>undefined\<close> otherwise. Appending \<open>undefined\<close> to a string with \<open>+=\<close> appends the nine
  characters \<open>undefined\<close>, which is what \<open>js_concat_index\<close> returns out of range.
\<close>

definition js_concat_index :: "string \<Rightarrow> nat \<Rightarrow> string" where
  "js_concat_index s i = (if i < length s then [s ! i] else ''undefined'')"

text \<open>
  JSX \<open>{v ? v : placeholder}\<close> for a form value \<open>v\<close> of type \<open>string | undefined\<close>:
  \<open>undefined\<close> and the empty string are falsy, every other string is truthy.
\<close>

definition js_or_placeholder :: "string option \<Rightarrow> string \<Rightarrow> string" where
  "js_or_placeholder v p = (case v of None \<Rightarrow> p | Some s \<Rightarrow> if s = [] then p else s)"

text \<open>The first position of a character in a string, the length when it does not occur.\<close>

fun index_of :: "char \<Rightarrow> string \<Rightarrow> nat" where
  "index_of x [] = 0"
| "index_of x (y # ys) = (if x = y then 0 else Suc (index_of x ys))"

section \<open>Bit length\<close>

text \<open>The number of binary digits of a natural number (\<open>0\<close> has none).\<close>

fun nbits :: "nat \<Rightarrow> nat" where
  "nbits n = (if n = 0 then 0 else Suc (nbits (n div 2)))"

declare nbits.simps [simp del]

section \<open>Lemmas\<close>

lemma utf8_nonempty [simp]: "utf8 bs = [] \<longleftrightarrow> bs = []"
  by (simp add: utf8_def)

lemma js_concat_index_in_range [simp, js_simps]:
  "i < length s \<Longrightarrow> js_concat_index s i = [s ! i]"
  by (simp add: js_concat_index_def)

lemma js_or_placeholder_simps [simp, js_simps]:
  "js_or_placeholder None p = p"
  "js_or_placeholder (Some []) p = p"
  "s \<noteq> [] \<Longrightarrow> js_or_placeholder (Some s) p = s"
  by (simp_all add: js_or_placeholder_def)


lemma index_of_le: "index_of x s \<le> length s"
  by (induction s) auto

lemma index_of_less_iff: "index_of x s < length s \<longleftrightarrow> x \<in> set s"
  by (induction s) auto

lemma nth_index_of: "x \<in> set s \<Longrightarrow> s ! index_of x s = x"
  by (induction s) auto

lemma index_of_nth: "distinct s \<Longrightarrow> i < length s \<Longrightarrow> index_of (s ! i) s = i"
proof (induction s arbitrary: i)
  case (Cons y ys)
  then show ?case by (cases i) auto
qed simp

lemma nbits_0 [simp]: "nbits 0 = 0"
  by (simp add: nbits.simps)

lemma nbits_pos: "0 < n \<Longrightarrow> nbits n = Suc (nbits (n div 2))"
  by (simp add: nbits.simps)

lemma nbits_less: "n < 2 ^ nbits n"
proof (induction n rule: nbits.induct)
  case (1 n)
  show ?case
  proof (cases "n = 0")
    case False
    with "1.IH" have "n div 2 < 2 ^ nbits (n div 2)" by simp
    with False show ?thesis by (simp add: nbits_pos)
  qed simp
qed

lemma nbits_ge: "0 < n \<Longrightarrow> 2 ^ (nbits n - 1) \<le> n"
proof (induction n rule: nbits.induct)
  case (1 n)
  show ?case
  proof (cases "n div 2 = 0")
    case True
    with "1.prems" show ?thesis by (simp add: nbits_pos)
  next
    case False
    with "1.IH" "1.prems" have "2 ^ (nbits (n div 2) - 1) \<le> n div 2" by simp
    moreover from False have "0 < nbits (n div 2)" by (simp add: nbits_pos)
    ultimately show ?thesis using "1.prems"
      by (simp add: nbits_pos) (metis Suc_pred power_Suc
          less_mult_imp_div_less mult.commute not_less)
  qed
qed

lemma nbits_le_iff_less: "nbits n \<le> k \<longleftrightarrow> n < 2 ^ k"
proof
  assume "nbits n \<le> k"
  then have "(2::nat) ^ nbits n \<le> 2 ^ k" by (rule power_increasing) simp
  with nbits_less [of n] show "n < 2 ^ k" by linarith
next
  assume lt: "n < 2 ^ k"
  show "nbits n \<le> k"
  proof (rule ccontr)
    assume "\<not> nbits n \<le> k"
    then have "k \<le> nbits n - 1" by linarith
    then have "(2::nat) ^ k \<le> 2 ^ (nbits n - 1)" by (rule power_increasing) simp
    moreover from \<open>\<not> nbits n \<le> k\<close> have "0 < n" by (cases "n = 0") auto
    ultimately show False using nbits_ge [of n] lt by linarith
  qed
qed

end
