(* ===== verification/JsNumber.thy ===== *)
theory JsNumber
  imports Complex_Main Prelude
begin

text \<open>
  The JavaScript numbers the component computes with: the values of \<open>Math.random()\<close>, their
  product with a small integer (\<open>Math.random() * 360\<close> in \<open>onClickRandomGradient\<close>,
  \<open>Math.random() * hexString.length\<close> in \<open>randomColor\<close>), \<open>Math.floor\<close> of that
  product, and the decimal text of an integer in a template literal.

  A double in \<open>[0, 1)\<close> is exactly a value \<open>m / 2 ^ e\<close> with \<open>m < 2 ^ 53\<close>,
  \<open>e \<le> 1074\<close> and \<open>m < 2 ^ e\<close>: normal doubles have a 53-bit significand, subnormal
  ones the scale \<open>2 ^ 1074\<close>. The product of such a value with an integer is the exact
  product rounded to the nearest double, ties to even (IEEE 754). The exact product
  \<open>m * n / 2 ^ e\<close> is rounded to 53 significant bits of \<open>m * n\<close>; the subnormal range
  needs no further rounding, since \<open>m * n\<close> with more than 53 bits is at least
  \<open>2 ^ 53 / 2 ^ 1074\<close>, a normal value. Overflow cannot occur for the factors the
  source uses. \<open>udouble_val\<close> is the exact rational value of a double; the last section
  compares \<open>Math.floor\<close> of a rounded product with the floor of the exact one.
\<close>

datatype udouble = UDouble (mant: nat) (scale: nat)

definition valid_random :: "udouble \<Rightarrow> bool" where
  "valid_random d \<longleftrightarrow> mant d < 2 ^ 53 \<and> scale d \<le> 1074 \<and> mant d < 2 ^ scale d"

text \<open>\<open>p\<close> rounded to a multiple of \<open>2 ^ s\<close>, nearest first, ties to the even quotient.\<close>

definition round_half_even :: "nat \<Rightarrow> nat \<Rightarrow> nat" where
  "round_half_even p s =
     (if s = 0 then p
      else let q = p div 2 ^ s; r = p mod 2 ^ s; h = 2 ^ (s - 1)
           in if h < r \<or> (r = h \<and> odd q) then Suc q else q)"

definition fl_round :: "nat \<Rightarrow> nat" where
  "fl_round p = (let s = nbits p - 53 in round_half_even p s * 2 ^ s)"

text \<open>\<open>d * n\<close> for a double \<open>d\<close> and a (representable) integer \<open>n\<close>.\<close>

definition fl_mul_nat :: "udouble \<Rightarrow> nat \<Rightarrow> udouble" where
  "fl_mul_nat d n = UDouble (fl_round (mant d * n)) (scale d)"

text \<open>\<open>Math.floor\<close> of a non-negative double.\<close>

definition math_floor :: "udouble \<Rightarrow> nat" where
  "math_floor d = mant d div 2 ^ scale d"

text \<open>The exact value \<open>m / 2 ^ e\<close> a double stands for, as a rational number.\<close>

definition udouble_val :: "udouble \<Rightarrow> rat" where
  "udouble_val d = of_nat (mant d) / 2 ^ scale d"

text \<open>
  The text of a non-negative integral number below \<open>10 ^ 21\<close> (ECMAScript
  \<open>Number::toString\<close>): its decimal digits, without leading zeros.
\<close>

definition decimal_digits :: string where
  "decimal_digits = ''0123456789''"

fun dec_string :: "nat \<Rightarrow> string" where
  "dec_string n =
     (if n < 10 then [decimal_digits ! n]
      else dec_string (n div 10) @ [decimal_digits ! (n mod 10)])"

declare dec_string.simps [simp del]

text \<open>Reading decimal digits back, as a CSS parser reads the angle of a gradient.\<close>

definition digit_val :: "char \<Rightarrow> nat option" where
  "digit_val c = (let k = of_char c in if 48 \<le> k \<and> k < 58 then Some (k - 48) else None)"

fun parse_dec_acc :: "nat \<Rightarrow> string \<Rightarrow> nat option" where
  "parse_dec_acc acc [] = Some acc"
| "parse_dec_acc acc (c # cs) =
     (case digit_val c of None \<Rightarrow> None | Some k \<Rightarrow> parse_dec_acc (10 * acc + k) cs)"

definition parse_dec :: "string \<Rightarrow> nat option" where
  "parse_dec s = (if s = [] then None else parse_dec_acc 0 s)"

section \<open>Rounding\<close>

lemma round_half_even_err: "round_half_even p s * 2 ^ s \<le> p + 2 ^ s div 2"
proof (cases s)
  case (Suc t)
  define q r where "q = p div 2 ^ s" and "r = p mod 2 ^ s"
  have p: "p = q * 2 ^ s + r"
    unfolding q_def r_def by (rule div_mult_mod_eq [symmetric])
  have h: "(2::nat) ^ s div 2 = 2 ^ t" and hs: "(2::nat) ^ s = 2 ^ t + 2 ^ t"
    using Suc by simp_all
  have rhe: "round_half_even p s = (if 2 ^ t < r \<or> (r = 2 ^ t \<and> odd q) then Suc q else q)"
    using Suc by (simp only: round_half_even_def Let_def q_def r_def) simp
  show ?thesis
  proof (cases "2 ^ t < r \<or> (r = 2 ^ t \<and> odd q)")
    case True
    then have "2 ^ t \<le> r" by auto
    moreover have "Suc q * 2 ^ s = q * 2 ^ s + 2 ^ s" by simp
    ultimately have "Suc q * 2 ^ s \<le> p + 2 ^ t" using p hs by linarith
    with True h rhe show ?thesis by simp
  next
    case c: False
    have "q * 2 ^ s \<le> p" using p by linarith
    moreover from c rhe have "round_half_even p s = q" by presburger
    ultimately show ?thesis by simp
  qed
qed (simp add: round_half_even_def)

lemma fl_round_err: "fl_round p \<le> p + 2 ^ (nbits p - 53) div 2"
  unfolding fl_round_def Let_def by (rule round_half_even_err)

lemma fl_round_exact_small: "p < 2 ^ 53 \<Longrightarrow> fl_round p = p"
proof -
  assume "p < 2 ^ 53"
  then have "nbits p \<le> 53" by (simp add: nbits_le_iff_less)
  then show ?thesis by (simp add: fl_round_def round_half_even_def)
qed

text \<open>
  Multiplying by a power of two is exact: the significand is shifted, never rounded.
  \<open>Math.random() * 16\<close> is therefore exactly sixteen times the random value.
\<close>

lemma fl_round_pow2_exact:
  assumes "m < 2 ^ 53"
  shows "fl_round (m * 2 ^ k) = m * 2 ^ k"
proof -
  have "m * 2 ^ k < 2 ^ (53 + k)" using assms by (simp add: power_add)
  then have "nbits (m * 2 ^ k) \<le> 53 + k" by (simp add: nbits_le_iff_less)
  then have s: "nbits (m * 2 ^ k) - 53 \<le> k" by linarith
  define s' where "s' = nbits (m * 2 ^ k) - 53"
  have dvd: "(2::nat) ^ s' dvd m * 2 ^ k"
    using s by (simp add: s'_def le_imp_power_dvd)
  then have "m * 2 ^ k mod 2 ^ s' = 0" by simp
  moreover have "m * 2 ^ k div 2 ^ s' * 2 ^ s' = m * 2 ^ k"
    using dvd by simp
  ultimately show ?thesis
    unfolding fl_round_def Let_def s'_def [symmetric]
    by (auto simp: round_half_even_def Let_def)
qed

lemma half_ulp_less:
  assumes "m < 2 ^ 53" "0 < n"
  shows "2 ^ (nbits (m * n) - 53) div 2 < n"
proof (cases "nbits (m * n) - 53")
  case 0
  with assms show ?thesis by simp
next
  case (Suc t)
  then have pos: "0 < m * n" by (cases "m * n = 0") auto
  have "2 ^ (nbits (m * n) - 1) \<le> m * n" using pos by (rule nbits_ge)
  moreover from Suc have "nbits (m * n) - 1 = 53 + t" by linarith
  ultimately have "2 ^ 53 * 2 ^ t \<le> m * n" by (simp add: power_add)
  also have "m * n < 2 ^ 53 * n" using assms by simp
  finally have "2 ^ t < n" by simp
  with Suc show ?thesis by simp
qed

lemma math_floor_fl_mul_lt:
  assumes "valid_random d" "0 < n"
  shows "math_floor (fl_mul_nat d n) < n"
proof -
  let ?m = "mant d" and ?e = "scale d"
  from assms(1) have m53: "?m < 2 ^ 53" and me: "?m < 2 ^ ?e" by (simp_all add: valid_random_def)
  have "fl_round (?m * n) \<le> ?m * n + 2 ^ (nbits (?m * n) - 53) div 2" by (rule fl_round_err)
  also have "\<dots> < ?m * n + n" using half_ulp_less [OF m53 assms(2)] by simp
  also have "?m * n + n = Suc ?m * n" by simp
  also have "\<dots> \<le> 2 ^ ?e * n" using me by (intro mult_right_mono) simp_all
  finally have "fl_round (?m * n) < n * 2 ^ ?e" by (simp add: mult.commute)
  then show ?thesis by (simp add: math_floor_def fl_mul_nat_def less_mult_imp_div_less)
qed


section \<open>Decimal text\<close>

lemma digit_val_decimal_digit [simp]: "d < 10 \<Longrightarrow> digit_val (decimal_digits ! d) = Some d"
proof -
  have "\<forall>k \<in> {..<10}. digit_val (decimal_digits ! k) = Some k"
    by (simp add: lessThan_nat_numeral lessThan_Suc decimal_digits_def digit_val_def)
  then show "d < 10 \<Longrightarrow> ?thesis" by simp
qed

lemma parse_dec_acc_append:
  "parse_dec_acc acc (xs @ ys) = (case parse_dec_acc acc xs of None \<Rightarrow> None | Some a \<Rightarrow> parse_dec_acc a ys)"
  by (induction acc xs rule: parse_dec_acc.induct) (simp_all split: option.split)

lemma dec_string_nonempty [simp]: "dec_string n \<noteq> []"
  by (subst dec_string.simps) simp

lemma parse_dec_acc_dec_string:
  "parse_dec_acc acc (dec_string n) = Some (acc * 10 ^ length (dec_string n) + n)"
proof (induction n arbitrary: acc rule: dec_string.induct)
  case (1 n)
  show ?case
  proof (cases "n < 10")
    case True
    then show ?thesis by (subst (1 2) dec_string.simps) simp
  next
    case False
    let ?L = "length (dec_string (n div 10))"
    have "dec_string n = dec_string (n div 10) @ [decimal_digits ! (n mod 10)]"
      using False by (subst dec_string.simps) simp
    moreover have "10 * (acc * 10 ^ ?L + n div 10) + n mod 10 = acc * 10 ^ Suc ?L + n"
      by simp
    ultimately show ?thesis using "1.IH" False by (simp add: parse_dec_acc_append)
  qed
qed

lemma parse_dec_dec_string [simp]: "parse_dec (dec_string n) = Some n"
  using parse_dec_acc_dec_string [of 0 n] by (simp add: parse_dec_def)

section \<open>Exact and rounded products\<close>

lemma math_floor_val: "math_floor d = nat \<lfloor>udouble_val d\<rfloor>"
proof -
  have "\<lfloor>udouble_val d\<rfloor> = int (mant d div 2 ^ scale d)"
    using floor_divide_of_nat_eq [of "mant d" "2 ^ scale d", where 'a = rat]
    by (simp add: udouble_val_def)
  then show ?thesis by (simp add: math_floor_def)
qed

lemma udouble_val_fl_mul_exact:
  "fl_round (mant d * n) = mant d * n \<Longrightarrow> udouble_val (fl_mul_nat d n) = udouble_val d * of_nat n"
  by (simp add: udouble_val_def fl_mul_nat_def)

lemma floor_mul_pow2_exact:
  assumes "mant d < 2 ^ 53"
  shows "math_floor (fl_mul_nat d (2 ^ k)) = nat \<lfloor>udouble_val d * 2 ^ k\<rfloor>"
  using udouble_val_fl_mul_exact [OF fl_round_pow2_exact [OF assms]]
    math_floor_val [of "fl_mul_nat d (2 ^ k)"]
  by simp

text \<open>
  A value of \<open>Math.random()\<close> whose product with 360 is \<open>349 - 2 ^ -50\<close>: the product
  rounds to the double \<open>349\<close>, one more than the exact floor.
\<close>

lemma fl_mul_360_rounds_up:
  "valid_random (UDouble 8731979277512795 53) \<and>
   math_floor (fl_mul_nat (UDouble 8731979277512795 53) 360)
     = nat \<lfloor>udouble_val (UDouble 8731979277512795 53) * 360\<rfloor> + 1"
proof -
  let ?d = "UDouble 8731979277512795 53"
  have "math_floor (fl_mul_nat ?d 360) = 349"
    by (simp add: math_floor_def fl_mul_nat_def fl_round_def round_half_even_def nbits.simps Let_def)
  moreover have "\<lfloor>udouble_val ?d * 360\<rfloor> = 348"
    using floor_divide_of_nat_eq [of "8731979277512795 * 360" "2 ^ 53", where 'a = rat]
    by (simp add: udouble_val_def)
  moreover have "valid_random ?d" by (simp add: valid_random_def)
  ultimately show ?thesis by simp
qed

end
