(* ===== verification/RandomColor.thy ===== *)
theory RandomColor
  imports JsNumber "HOL-Library.While_Combinator"
begin

text \<open>
  \<open>randomColor\<close> and \<open>hexString\<close> of \<open>src/pages/main/index.tsx\<close>: six draws of
  \<open>Math.random()\<close>, each scaled by \<open>hexString.length\<close>, floored and used to index
  \<open>hexString\<close>, appended to \<open>'#'\<close>. \<open>Math.random\<close> is a stream of doubles consumed from
  the front (\<open>rng\<close>); the handlers thread it through their calls in the source's order.
  The loop is given twice: as the recursive function \<open>color_loop\<close>, which the handlers
  use, and in the shape the source writes it, \<open>while_option\<close> over the counter, the
  string and the stream (\<open>randomColor_while\<close>); the two are proved to agree.
\<close>

type_synonym rng = "udouble stream"

definition math_random :: "rng \<Rightarrow> udouble \<times> rng" where
  "math_random g = (shd g, stl g)"

text \<open>What ECMAScript promises of \<open>Math.random\<close>: every value is a double in \<open>[0, 1)\<close>.\<close>

definition valid_rng :: "rng \<Rightarrow> bool" where
  "valid_rng g \<longleftrightarrow> (\<forall>n. valid_random (g !! n))"

definition hexString :: string where
  "hexString = ''0123456789abcdef''"

text \<open>The loop \<open>for (var i = 0; i < 6; i++) hexCode += hexString[Math.floor(Math.random() * hexString.length)]\<close>.\<close>

function color_loop :: "nat \<Rightarrow> string \<Rightarrow> rng \<Rightarrow> string \<times> rng" where
  "color_loop i hexCode g =
     (if i < 6 then
        (let (r, g') = math_random g
         in color_loop (Suc i)
              (hexCode @ js_concat_index hexString (math_floor (fl_mul_nat r (length hexString)))) g')
      else (hexCode, g))"
  by pat_completeness auto
termination
  by (relation "measure (\<lambda>(i, _, _). 6 - i)") (auto simp: math_random_def)

declare color_loop.simps [simp del]

definition randomColor :: "rng \<Rightarrow> string \<times> rng" where
  "randomColor g = color_loop 0 ''#'' g"

text \<open>
  The spec's hex-digit alphabet (16 symbols, written in lower case), given independently of the
  code's \<open>hexString\<close>, and a colour as the spec describes it: \<open>#\<close> and six of its symbols.
\<close>

definition hex_alphabet :: string where
  "hex_alphabet = ''0123456789abcdef''"

definition is_hex_color :: "string \<Rightarrow> bool" where
  "is_hex_color s \<longleftrightarrow>
     length s = 7 \<and> take 1 s = ''#'' \<and> list_all (\<lambda>c. c \<in> set hex_alphabet) (drop 1 s)"

text \<open>The character one loop iteration appends when its index is in range.\<close>

definition hex_draw :: "udouble \<Rightarrow> char" where
  "hex_draw d = hexString ! math_floor (fl_mul_nat d (length hexString))"

text \<open>
  The same \<open>for\<close> loop kept in its shape, with \<open>while_option\<close>: the loop state is the
  counter \<open>i\<close>, the string \<open>hexCode\<close> and the random stream; the guard is \<open>i < 6\<close>; the
  body appends one digit (\<open>hexCode += ...\<close>) and then increments \<open>i\<close>.
\<close>

definition color_body :: "nat \<times> string \<times> rng \<Rightarrow> nat \<times> string \<times> rng" where
  "color_body = (\<lambda>(i, hexCode, g).
     let (r, g') = math_random g
     in (Suc i, hexCode @ js_concat_index hexString (math_floor (fl_mul_nat r (length hexString))), g'))"

definition randomColor_while :: "rng \<Rightarrow> (nat \<times> string \<times> rng) option" where
  "randomColor_while g = while_option (\<lambda>(i, _, _). i < 6) color_body (0, ''#'', g)"

section \<open>The loop\<close>

lemma valid_rng_stl: "valid_rng g \<Longrightarrow> valid_rng (stl g)"
  by (simp add: valid_rng_def snth.simps(2) [symmetric] del: snth.simps(2))

lemma valid_rng_shd: "valid_rng g \<Longrightarrow> valid_random (shd g)"
  using snth.simps(1) [of g] by (metis valid_rng_def)

lemma length_hexString [simp]: "length hexString = 16"
  by (simp add: hexString_def)

lemma hex_index_lt: "valid_random d \<Longrightarrow> math_floor (fl_mul_nat d (length hexString)) < length hexString"
  by (rule math_floor_fl_mul_lt) simp_all

lemma color_loop_eq:
  "valid_rng g \<Longrightarrow> i \<le> 6 \<Longrightarrow>
   color_loop i h g = (h @ map (\<lambda>k. hex_draw (g !! k)) [0..<6 - i], sdrop (6 - i) g)"
proof (induction i h g rule: color_loop.induct)
  case (1 i h g)
  show ?case
  proof (cases "i < 6")
    case True
    have v: "valid_rng (stl g)" using "1.prems"(1) by (rule valid_rng_stl)
    have idx: "js_concat_index hexString (math_floor (fl_mul_nat (shd g) (length hexString))) = [hex_draw (shd g)]"
      using hex_index_lt [OF valid_rng_shd [OF "1.prems"(1)]] by (simp add: hex_draw_def js_simps)
    have mr: "(shd g, stl g) = math_random g" by (simp add: math_random_def)
    have n: "6 - i = Suc (6 - Suc i)" using True by simp
    have "color_loop i h g = color_loop (Suc i) (h @ [hex_draw (shd g)]) (stl g)"
      using True idx by (simp add: color_loop.simps [of i] math_random_def)
    also have "\<dots> = (h @ [hex_draw (shd g)] @ map (\<lambda>k. hex_draw (stl g !! k)) [0..<6 - Suc i],
                     sdrop (6 - Suc i) (stl g))"
      using "1.IH" [OF True refl mr v] True idx by simp
    finally show ?thesis by (simp only: n map_upt_Suc) simp
  next
    case False
    have "color_loop i h g = (h, g)" using False by (simp add: color_loop.simps [of i])
    with False "1.prems" show ?thesis by simp
  qed
qed

lemma randomColor_eq:
  "valid_rng g \<Longrightarrow> randomColor g = (''#'' @ map (\<lambda>k. hex_draw (g !! k)) [0..<6], sdrop 6 g)"
  by (simp add: randomColor_def color_loop_eq)

lemma set_hexString: "set hexString = set hex_alphabet"
  by (simp add: hexString_def hex_alphabet_def)

lemma hex_draw_in: "valid_random d \<Longrightarrow> hex_draw d \<in> set hexString"
  unfolding hex_draw_def using hex_index_lt by (rule nth_mem)

lemma randomColor_hex_color: "valid_rng g \<Longrightarrow> is_hex_color (fst (randomColor g))"
  using hex_draw_in by (simp add: randomColor_eq is_hex_color_def list_all_iff valid_rng_def set_hexString)

lemma valid_rng_sdrop: "valid_rng g \<Longrightarrow> valid_rng (sdrop n g)"
  by (simp add: valid_rng_def sdrop_snth)

lemma randomColor_snd: "valid_rng g \<Longrightarrow> snd (randomColor g) = sdrop 6 g"
  by (simp add: randomColor_eq)

lemma randomColor_split:
  assumes "valid_rng g"
  obtains c where "randomColor g = (c, sdrop 6 g)" and "is_hex_color c"
  using randomColor_hex_color [OF assms] randomColor_snd [OF assms] by (metis prod.collapse)

lemma stl_cycle1 [simp]: "stl (cycle [d]) = cycle [d]"
  by simp

lemma snth_cycle1 [simp]: "cycle [d] !! n = d"
  by (induction n) simp_all

lemma sdrop_cycle1 [simp]: "sdrop n (cycle [d]) = cycle [d]"
  by (induction n) simp_all

lemma valid_rng_shift_cycle:
  "list_all valid_random ds \<Longrightarrow> valid_random d \<Longrightarrow> valid_rng (ds @- cycle [d])"
  by (auto simp: valid_rng_def shift_snth list_all_length)

text \<open>
  C2. \<open>randomColor\<close> consumes exactly six values of \<open>Math.random\<close>, and the \<open>k\<close>-th character
  after \<open>#\<close> is the digit of \<open>hexString\<close> at \<open>floor (16 * r\<^sub>k)\<close>, computed exactly: the
  product with \<open>hexString.length = 16\<close> is never rounded.
\<close>

theorem randomColor_draws:
  assumes "valid_rng g"
  shows "randomColor g =
    (''#'' @ map (\<lambda>k. hexString ! (mant (g !! k) * 16 div 2 ^ scale (g !! k))) [0..<6], sdrop 6 g)"
proof -
  have "hex_draw d = hexString ! (mant d * 16 div 2 ^ scale d)" if "valid_random d" for d
  proof -
    from that have "mant d < 2 ^ 53" by (simp add: valid_random_def)
    then have "fl_round (mant d * 2 ^ 4) = mant d * 2 ^ 4" by (rule fl_round_pow2_exact)
    then show ?thesis by (simp add: hex_draw_def fl_mul_nat_def math_floor_def)
  qed
  with assms show ?thesis by (simp add: randomColor_eq valid_rng_def)
qed

theorem randomColor_draws_witness:
  "valid_rng ([UDouble 3 2, UDouble 1 4] @- cycle [UDouble 0 0]) \<and>
   randomColor ([UDouble 3 2, UDouble 1 4] @- cycle [UDouble 0 0]) =
     (''#c10000'', cycle [UDouble 0 0])"
proof -
  have v: "valid_rng ([UDouble 3 2, UDouble 1 4] @- cycle [UDouble 0 0])"
    by (rule valid_rng_shift_cycle) (simp_all add: valid_random_def)
  have "sdrop 6 ([UDouble 3 2, UDouble 1 4] @- cycle [UDouble 0 0]) = cycle [UDouble 0 0]"
    by (simp add: numeral_eq_Suc)
  with randomColor_draws [OF v] v show ?thesis
    by (simp add: hexString_def upt_rec shift_snth)
qed

section \<open>The loop in its \<open>while\<close> shape\<close>

lemma color_body_step:
  "color_body (i, h, g) =
     (Suc i, h @ js_concat_index hexString (math_floor (fl_mul_nat (shd g) (length hexString))), stl g)"
  by (simp add: color_body_def math_random_def)

lemma while_color_loop:
  "i \<le> 6 \<Longrightarrow> while_option (\<lambda>(i, _, _). i < 6) color_body (i, h, g) = Some (6, color_loop i h g)"
proof (induction i h g rule: color_loop.induct)
  case (1 i h g)
  show ?case
  proof (cases "i < 6")
    case True
    let ?d = "js_concat_index hexString (math_floor (fl_mul_nat (shd g) (length hexString)))"
    have mr: "(shd g, stl g) = math_random g" by (simp add: math_random_def)
    have l: "color_loop i h g = color_loop (Suc i) (h @ ?d) (stl g)"
      using True by (simp add: color_loop.simps [of i] math_random_def)
    have "while_option (\<lambda>(i, _, _). i < 6) color_body (i, h, g)
        = while_option (\<lambda>(i, _, _). i < 6) color_body (Suc i, h @ ?d, stl g)"
      using True by (subst while_option_unfold) (simp add: color_body_step)
    also have "\<dots> = Some (6, color_loop (Suc i) (h @ ?d) (stl g))"
      using "1.IH" [OF True refl mr] True by (simp only: Suc_le_eq)
    finally show ?thesis by (simp only: l)
  next
    case False
    with "1.prems" have "i = 6" by simp
    then show ?thesis
      by (simp add: while_option_unfold [of _ _ "(6, h, g)"] color_loop.simps [of 6])
  qed
qed

text \<open>
  The \<open>for\<close> loop of \<open>randomColor\<close>, run as written (\<open>while_option\<close> over the counter,
  the string and the random stream), ends with the counter at 6 and the same colour and
  remaining stream as \<open>randomColor\<close>, for every stream of random values.
\<close>

lemma randomColor_while_eq: "randomColor_while g = Some (6, randomColor g)"
  by (simp add: randomColor_while_def randomColor_def while_color_loop)


end
