(* ===== verification/Background.thy ===== *)
theory Background
  imports RandomColor
begin

text \<open>
  The background of the preview element (\<open><Preview id='preview'>\<close>) and the handlers that
  write it: \<open>onClickRandomGradient\<close>, \<open>onClickRandomColor\<close>, the \<open>then\<close> callback of
  \<open>onClickRandomImage\<close> and the \<open>onload\<close> callback of \<open>onChangeImage\<close>. Each looks the
  element up with \<open>document.getElementById('preview')\<close> and assigns its inline style.

  Two pieces of browser behaviour decide what an assignment does, and are modelled from the
  CSS specifications (they are not code of the repository):
  \<^item> \<open>style.background = v\<close> sets the \<open>background\<close> shorthand when \<open>v\<close> parses, and is
    ignored otherwise. Setting the shorthand resets every background longhand it does not
    mention, among them \<open>background-size\<close>, to \<open>initial\<close>.
  \<^item> The parser \<open>parse_css_background\<close> recognises the three forms the component writes: a
    hex colour, \<open>linear-gradient(<n>deg, <colour>, <colour>)\<close> and an unquoted
    \<open>url(...)\<close>, whose body may not contain quotes, parentheses, a backslash, white space
    or control characters (CSS Syntax, consume a url token). No other form is ever written.
  The spec's \<open>BackgroundDescriptor\<close> is the datatype \<open>descriptor\<close>; \<open>abs_background\<close>
  reads it back from the style, which is how the refinement of the spec is stated.
\<close>

datatype css_background = CssColor string | CssGradient nat string string | CssUrl string

definition css_text :: "css_background \<Rightarrow> string" where
  "css_text v = (case v of
     CssColor c \<Rightarrow> c
   | CssGradient a c1 c2 \<Rightarrow> ''linear-gradient('' @ dec_string a @ ''deg, '' @ c1 @ '', '' @ c2 @ '')''
   | CssUrl u \<Rightarrow> ''url('' @ u @ '')'')"

definition url_char_ok :: "char \<Rightarrow> bool" where
  "url_char_ok c \<longleftrightarrow>
     (let k = of_char c :: nat
      in 32 < k \<and> k \<noteq> 127 \<and> c \<notin> {CHR 0x22, CHR 0x27, CHR ''('', CHR '')'', CHR 0x5C})"

definition strip_affix :: "string \<Rightarrow> string \<Rightarrow> string \<Rightarrow> string option" where
  "strip_affix pre suf s =
     (if length pre + length suf \<le> length s \<and> take (length pre) s = pre
         \<and> drop (length s - length suf) s = suf
      then Some (drop (length pre) (take (length s - length suf) s)) else None)"

text \<open>The arguments of a gradient: \<open><digits>deg, <7 chars>, <7 chars>\<close>.\<close>

definition parse_gradient_args :: "string \<Rightarrow> css_background option" where
  "parse_gradient_args a =
     (let n = length a; c1 = take 7 (drop (n - 16) a); c2 = drop (n - 7) a
      in if 21 < n \<and> take 5 (drop (n - 21) a) = ''deg, '' \<and> take 2 (drop (n - 9) a) = '', ''
            \<and> is_hex_color c1 \<and> is_hex_color c2
         then map_option (\<lambda>k. CssGradient k c1 c2) (parse_dec (take (n - 21) a))
         else None)"

definition parse_css_background :: "string \<Rightarrow> css_background option" where
  "parse_css_background s =
     (if is_hex_color s then Some (CssColor s)
      else case strip_affix ''linear-gradient('' '')'' s of
        Some a \<Rightarrow> parse_gradient_args a
      | None \<Rightarrow> (case strip_affix ''url('' '')'' s of
          Some u \<Rightarrow> if list_all url_char_ok u then Some (CssUrl u) else None
        | None \<Rightarrow> None))"

definition css_wf :: "css_background \<Rightarrow> bool" where
  "css_wf v = (case v of
     CssColor c \<Rightarrow> is_hex_color c
   | CssGradient a c1 c2 \<Rightarrow> is_hex_color c1 \<and> is_hex_color c2
   | CssUrl u \<Rightarrow> list_all url_char_ok u)"

text \<open>The inline style of the preview element; the empty string is a property not set.\<close>

record preview_style =
  background :: string
  backgroundSize :: string

definition preview_initial :: preview_style where
  "preview_initial = \<lparr>background = [], backgroundSize = []\<rparr>"

definition set_background :: "string \<Rightarrow> preview_style \<Rightarrow> preview_style" where
  "set_background v st =
     (case parse_css_background v of
        None \<Rightarrow> st
      | Some _ \<Rightarrow> st\<lparr>background := v, backgroundSize := ''initial''\<rparr>)"

definition set_backgroundSize :: "string \<Rightarrow> preview_style \<Rightarrow> preview_style" where
  "set_backgroundSize v st = st\<lparr>backgroundSize := v\<rparr>"

text \<open>
  \<open>onClickRandomGradient\<close>: two colours, then the angle, then the assignment
  \<open>linear-gradient(${angle}deg, ${colorOne}, ${colorTwo})\<close>.
\<close>

definition onClickRandomGradient :: "preview_style \<Rightarrow> rng \<Rightarrow> preview_style \<times> rng" where
  "onClickRandomGradient st g =
     (let (colorOne, g1) = randomColor g;
          (colorTwo, g2) = randomColor g1;
          (r, g3) = math_random g2;
          angle = math_floor (fl_mul_nat r 360)
      in (set_background
            (''linear-gradient('' @ dec_string angle @ ''deg, '' @ colorOne @ '', '' @ colorTwo @ '')'')
            st, g3))"

text \<open>The gradient \<open>onClickRandomGradient\<close> draws from a stream of random values.\<close>

definition gradient_of :: "rng \<Rightarrow> css_background" where
  "gradient_of g = CssGradient (math_floor (fl_mul_nat (g !! 12) 360))
                      (fst (randomColor g)) (fst (randomColor (sdrop 6 g)))"

definition onClickRandomColor :: "preview_style \<Rightarrow> rng \<Rightarrow> preview_style \<times> rng" where
  "onClickRandomColor st g = (let (color, g1) = randomColor g in (set_background color st, g1))"

text \<open>The \<open>then\<close> callback of the fetch in \<open>onClickRandomImage\<close>: \<open>url(${response.url})\<close>.\<close>

definition fetch_then :: "string \<Rightarrow> preview_style \<Rightarrow> preview_style" where
  "fetch_then response_url st = set_background (''url('' @ response_url @ '')'') st"

text \<open>The style part of \<open>reader.onload\<close>: \<open>url(${file})\<close>, then \<open>backgroundSize = 'cover'\<close>.\<close>

definition onload_style :: "string \<Rightarrow> preview_style \<Rightarrow> preview_style" where
  "onload_style file st = set_backgroundSize ''cover'' (set_background (''url('' @ file @ '')'') st)"

text \<open>The spec's \<open>BackgroundDescriptor\<close>.\<close>

datatype descriptor =
  Gradient nat string string
| SolidColor string
| RemoteImage string
| UploadedImage string

definition descriptor_wf :: "descriptor \<Rightarrow> bool" where
  "descriptor_wf d = (case d of
     Gradient a c1 c2 \<Rightarrow> a < 360 \<and> is_hex_color c1 \<and> is_hex_color c2
   | SolidColor c \<Rightarrow> is_hex_color c
   | RemoteImage u \<Rightarrow> list_all url_char_ok u
   | UploadedImage u \<Rightarrow> list_all url_char_ok u)"

text \<open>
  The descriptor a style shows: none while the inline background is unset (the style sheet's
  \<open>#000000\<close> shows); an image is an uploaded one exactly when it is covered.
\<close>

definition abs_background :: "preview_style \<Rightarrow> descriptor option" where
  "abs_background st =
     (case parse_css_background (background st) of
        None \<Rightarrow> None
      | Some (CssColor c) \<Rightarrow> Some (SolidColor c)
      | Some (CssGradient a c1 c2) \<Rightarrow> Some (Gradient a c1 c2)
      | Some (CssUrl u) \<Rightarrow>
          Some (if backgroundSize st = ''cover'' then UploadedImage u else RemoteImage u))"

section \<open>Lemmas\<close>

lemma strip_affix_append [simp]: "strip_affix pre suf (pre @ x @ suf) = Some x"
  by (simp add: strip_affix_def)

lemma is_hex_color_length: "is_hex_color c \<Longrightarrow> length c = 7"
  by (simp add: is_hex_color_def)

lemma not_hex_color_Cons: "a \<noteq> CHR ''#'' \<Longrightarrow> \<not> is_hex_color (a # s)"
  by (simp add: is_hex_color_def)

lemma parse_gradient_args_text:
  assumes "is_hex_color c1" "is_hex_color c2"
  shows "parse_gradient_args (dec_string a @ ''deg, '' @ c1 @ '', '' @ c2) = Some (CssGradient a c1 c2)"
proof -
  have l1: "length c1 = 7" and l2: "length c2 = 7" using assms by (simp_all add: is_hex_color_length)
  have "dec_string a \<noteq> []" by simp
  then have L: "0 < length (dec_string a)" by simp
  show ?thesis using assms l1 l2 L
    by (simp add: parse_gradient_args_def Let_def)
qed

lemma strip_affix_eqI: "s = pre @ x @ suf \<Longrightarrow> strip_affix pre suf s = Some x"
  by simp

lemma parse_css_background_text: "css_wf v \<Longrightarrow> parse_css_background (css_text v) = Some v"
proof (cases v)
  case (CssColor c)
  then show "css_wf v \<Longrightarrow> ?thesis" by (simp add: css_wf_def css_text_def parse_css_background_def)
next
  case (CssGradient a c1 c2)
  have nh: "\<not> is_hex_color (css_text v)"
    using CssGradient by (simp add: css_text_def not_hex_color_Cons)
  have s: "strip_affix ''linear-gradient('' '')'' (css_text v) =
           Some (dec_string a @ ''deg, '' @ c1 @ '', '' @ c2)"
    by (rule strip_affix_eqI) (simp add: CssGradient css_text_def)
  assume "css_wf v"
  with CssGradient have "is_hex_color c1" "is_hex_color c2" by (simp_all add: css_wf_def)
  then have "parse_gradient_args (dec_string a @ ''deg, '' @ c1 @ '', '' @ c2) = Some (CssGradient a c1 c2)"
    by (rule parse_gradient_args_text)
  then have p: "parse_gradient_args (dec_string a @ ''deg, '' @ c1 @ '', '' @ c2) = Some v"
    using CssGradient by simp
  show ?thesis
    by (simp only: parse_css_background_def nh s p if_False option.case)
next
  case (CssUrl u)
  have nh: "\<not> is_hex_color (css_text v)"
    using CssUrl by (simp add: css_text_def not_hex_color_Cons)
  have ng: "strip_affix ''linear-gradient('' '')'' (css_text v) = None"
    using CssUrl by (simp add: strip_affix_def css_text_def)
  have s: "strip_affix ''url('' '')'' (css_text v) = Some u"
    by (rule strip_affix_eqI) (simp add: CssUrl css_text_def)
  assume "css_wf v"
  with nh ng s CssUrl show ?thesis
    by (simp add: parse_css_background_def css_wf_def)
qed

lemma set_background_wf:
  "css_wf v \<Longrightarrow> set_background (css_text v) st = st\<lparr>background := css_text v, backgroundSize := ''initial''\<rparr>"
  by (simp add: set_background_def parse_css_background_text)

lemma set_background_bad:
  "parse_css_background s = None \<Longrightarrow> set_background s st = st"
  by (simp add: set_background_def)

lemma set_background_hex:
  "is_hex_color c \<Longrightarrow> set_background c st = st\<lparr>background := c, backgroundSize := ''initial''\<rparr>"
  using set_background_wf [of "CssColor c"] by (simp add: css_wf_def css_text_def)

lemma parse_css_url:
  "parse_css_background (''url('' @ u @ '')'') = (if list_all url_char_ok u then Some (CssUrl u) else None)"
proof -
  have nh: "\<not> is_hex_color (''url('' @ u @ '')'')" by (simp add: not_hex_color_Cons)
  have ng: "strip_affix ''linear-gradient('' '')'' (''url('' @ u @ '')'') = None"
    by (simp add: strip_affix_def)
  have s: "strip_affix ''url('' '')'' (''url('' @ u @ '')'') = Some u"
    by (rule strip_affix_eqI) simp
  show ?thesis by (simp only: parse_css_background_def nh ng s if_False option.case)
qed

lemmas parse_css_url_cons = parse_css_url [simplified]

lemma gradient_of_wf:
  assumes "valid_rng g"
  shows "math_floor (fl_mul_nat (g !! 12) 360) < 360
         \<and> is_hex_color (fst (randomColor g)) \<and> is_hex_color (fst (randomColor (sdrop 6 g)))"
proof -
  have "math_floor (fl_mul_nat (g !! 12) 360) < 360"
    using assms by (intro math_floor_fl_mul_lt) (simp_all add: valid_rng_def)
  moreover have "is_hex_color (fst (randomColor g))" using assms by (rule randomColor_hex_color)
  moreover have "is_hex_color (fst (randomColor (sdrop 6 g)))"
    using valid_rng_sdrop [OF assms] by (rule randomColor_hex_color)
  ultimately show ?thesis by blast
qed

lemma onClickRandomGradient_eq:
  assumes "valid_rng g"
  shows "onClickRandomGradient st g =
           (st\<lparr>background := css_text (gradient_of g), backgroundSize := ''initial''\<rparr>, sdrop 13 g)"
proof -
  obtain c1 where r1: "randomColor g = (c1, sdrop 6 g)" and h1: "is_hex_color c1"
    using assms by (rule randomColor_split)
  have v6: "valid_rng (sdrop 6 g)" using assms by (rule valid_rng_sdrop)
  obtain c2 where r2: "randomColor (sdrop 6 g) = (c2, sdrop 12 g)" and h2: "is_hex_color c2"
    using v6 by (rule randomColor_split) simp
  have g: "gradient_of g = CssGradient (math_floor (fl_mul_nat (g !! 12) 360)) c1 c2"
    by (simp add: gradient_of_def r1 r2)
  have "set_background (css_text (gradient_of g)) st =
        st\<lparr>background := css_text (gradient_of g), backgroundSize := ''initial''\<rparr>"
    using h1 h2 by (simp add: set_background_wf g css_wf_def)
  then show ?thesis
    by (simp add: onClickRandomGradient_def r1 r2 math_random_def g css_text_def)
qed

lemma onClickRandomColor_eq:
  assumes "valid_rng g"
  shows "onClickRandomColor st g =
           (st\<lparr>background := fst (randomColor g), backgroundSize := ''initial''\<rparr>, sdrop 6 g)"
proof -
  obtain c where r: "randomColor g = (c, sdrop 6 g)" and h: "is_hex_color c"
    using assms by (rule randomColor_split)
  with h show ?thesis by (simp add: onClickRandomColor_def set_background_hex)
qed

lemma abs_background_set_color:
  "is_hex_color c \<Longrightarrow>
   abs_background (st\<lparr>background := c, backgroundSize := ''initial''\<rparr>) = Some (SolidColor c)"
  by (simp add: abs_background_def parse_css_background_def)

lemma abs_background_set_gradient:
  "css_wf (CssGradient a c1 c2) \<Longrightarrow>
   abs_background (st\<lparr>background := css_text (CssGradient a c1 c2), backgroundSize := ''initial''\<rparr>) =
     Some (Gradient a c1 c2)"
  by (simp add: abs_background_def parse_css_background_text del: css_text_def)

lemma fetch_then_ok:
  "list_all url_char_ok u \<Longrightarrow>
   fetch_then u st = st\<lparr>background := ''url('' @ u @ '')'', backgroundSize := ''initial''\<rparr>"
  by (simp add: fetch_then_def set_background_def parse_css_url_cons)

lemma fetch_then_bad: "\<not> list_all url_char_ok u \<Longrightarrow> fetch_then u st = st"
  by (simp add: fetch_then_def set_background_def parse_css_url_cons)

lemma fetch_then_fields:
  "list_all url_char_ok u \<Longrightarrow>
   background (fetch_then u st) = ''url('' @ u @ '')'' \<and> backgroundSize (fetch_then u st) = ''initial''"
  by (simp add: fetch_then_ok)

lemma abs_background_fetch_then:
  "list_all url_char_ok u \<Longrightarrow> abs_background (fetch_then u st) = Some (RemoteImage u)"
  by (simp add: fetch_then_ok abs_background_def parse_css_url_cons)

lemma onload_style_ok:
  "list_all url_char_ok f \<Longrightarrow>
   onload_style f st = st\<lparr>background := ''url('' @ f @ '')'', backgroundSize := ''cover''\<rparr>"
  by (simp add: onload_style_def set_backgroundSize_def set_background_def parse_css_url_cons)

lemma onload_style_bad:
  "\<not> list_all url_char_ok f \<Longrightarrow> onload_style f st = st\<lparr>backgroundSize := ''cover''\<rparr>"
  by (simp add: onload_style_def set_backgroundSize_def set_background_def parse_css_url_cons)

lemma backgroundSize_onload_style [simp]: "backgroundSize (onload_style f st) = ''cover''"
  by (simp add: onload_style_def set_backgroundSize_def)

lemma abs_background_onload_style:
  "list_all url_char_ok f \<Longrightarrow> abs_background (onload_style f st) = Some (UploadedImage f)"
  by (simp add: onload_style_ok abs_background_def parse_css_url_cons)

text \<open>
  C1. \<open>onClickRandomColor\<close> assigns the preview a colour \<open>#\<close> followed by six hex digits;
  the assignment is accepted (the background becomes that colour, the background size goes
  back to its initial value) and exactly six random values are consumed.
\<close>

theorem onClickRandomColor_sets_hex:
  assumes "valid_rng g"
  shows "onClickRandomColor st g =
           (st\<lparr>background := fst (randomColor g), backgroundSize := ''initial''\<rparr>, sdrop 6 g)
         \<and> is_hex_color (fst (randomColor g))"
  using onClickRandomColor_eq [OF assms] randomColor_hex_color [OF assms] by blast

theorem onClickRandomColor_sets_hex_witness:
  "valid_rng ([UDouble 3 2, UDouble 1 4] @- cycle [UDouble 0 0]) \<and>
   onClickRandomColor preview_initial ([UDouble 3 2, UDouble 1 4] @- cycle [UDouble 0 0]) =
     (preview_initial\<lparr>background := fst (randomColor ([UDouble 3 2, UDouble 1 4] @- cycle [UDouble 0 0])),
        backgroundSize := ''initial''\<rparr>, sdrop 6 ([UDouble 3 2, UDouble 1 4] @- cycle [UDouble 0 0]))"
proof -
  have v: "valid_rng ([UDouble 3 2, UDouble 1 4] @- cycle [UDouble 0 0])"
    by (rule valid_rng_shift_cycle) (simp_all add: valid_random_def)
  with onClickRandomColor_sets_hex [OF v] show ?thesis by simp
qed

text \<open>
  C3. \<open>onClickRandomGradient\<close> draws the first colour, then the second, then the angle (six,
  six and one random values, in that order), and assigns
  \<open>linear-gradient(<angle>deg, <colour>, <colour>)\<close>, which is accepted: the angle lies in
  \<open>[0, 360)\<close> under IEEE rounding of \<open>Math.random() * 360\<close>, and both colours are hex colours.
\<close>

theorem onClickRandomGradient_sets:
  assumes "valid_rng g"
  shows "onClickRandomGradient st g =
           (st\<lparr>background := css_text (gradient_of g), backgroundSize := ''initial''\<rparr>, sdrop 13 g)
         \<and> math_floor (fl_mul_nat (g !! 12) 360) < 360
         \<and> is_hex_color (fst (randomColor g)) \<and> is_hex_color (fst (randomColor (sdrop 6 g)))"
  using onClickRandomGradient_eq [OF assms] gradient_of_wf [OF assms] by blast

theorem onClickRandomGradient_sets_witness:
  "valid_rng (cycle [UDouble (2 ^ 53 - 1) 53]) \<and>
   fst (onClickRandomGradient preview_initial (cycle [UDouble (2 ^ 53 - 1) 53])) =
     preview_initial\<lparr>background := css_text (gradient_of (cycle [UDouble (2 ^ 53 - 1) 53])),
       backgroundSize := ''initial''\<rparr>"
proof -
  have v: "valid_rng (cycle [UDouble (2 ^ 53 - 1) 53])"
    by (simp add: valid_rng_def valid_random_def)
  with onClickRandomGradient_sets [OF v] show ?thesis by simp
qed

end
