(* ===== verification/Form.thy ===== *)
theory Form
  imports Prelude
begin

text \<open>
  The form state of \<open>Main\<close> (\<open>src/pages/main/index.tsx\<close>): \<open>useForm({mode: 'onChange'})\<close>
  of react-hook-form with the three fields \<open>title\<close>, \<open>subtitle\<close> and \<open>category\<close>, the
  calls the component makes (\<open>setValue\<close> from each input's \<open>onChange\<close>, \<open>reset\<close> in
  \<open>resetInput\<close>, \<open>useWatch\<close> for the preview), and the preview's three texts with their
  placeholders. The library is not part of the repository: its state (values, default
  values, dirty flags) and the three calls are modelled from its documented behaviour. The
  form registers no validation rule, so its error state stays empty and is not modelled.
\<close>

datatype field = Title | Subtitle | Category

record form_state =
  fvalues :: "field \<Rightarrow> string option"
  fdefaults :: "field \<Rightarrow> string option"
  fdirty :: "field \<Rightarrow> bool"

text \<open>\<open>useForm\<close> without \<open>defaultValues\<close>: every value and default is \<open>undefined\<close>.\<close>

definition useForm_init :: form_state where
  "useForm_init = \<lparr>fvalues = (\<lambda>_. None), fdefaults = (\<lambda>_. None), fdirty = (\<lambda>_. False)\<rparr>"

text \<open>
  \<open>setValue(name, value, {shouldValidate: true, shouldDirty: true})\<close>: stores the value; the
  field is dirty exactly when the value differs from its default value.
\<close>

definition setValue :: "field \<Rightarrow> string \<Rightarrow> form_state \<Rightarrow> form_state" where
  "setValue f v fs =
     fs\<lparr>fvalues := (fvalues fs)(f := Some v), fdirty := (fdirty fs)(f := (fdefaults fs f \<noteq> Some v))\<rparr>"

text \<open>\<open>reset(values)\<close>: the values become the new values and defaults; no field is dirty.\<close>

definition reset :: "(field \<Rightarrow> string option) \<Rightarrow> form_state \<Rightarrow> form_state" where
  "reset vals fs = fs\<lparr>fvalues := vals, fdefaults := vals, fdirty := (\<lambda>_. False)\<rparr>"

definition useWatch :: "field \<Rightarrow> form_state \<Rightarrow> string option" where
  "useWatch f fs = fvalues fs f"

text \<open>\<open>resetInput\<close>: \<open>reset({ title: '', subtitle: '', category: '' })\<close>.\<close>

definition resetInput :: "form_state \<Rightarrow> form_state" where
  "resetInput fs = reset (\<lambda>_. Some []) fs"

text \<open>The input handlers: \<open>onChange={(e) => setValue('title', e.target.value, ...)}\<close> and the two like it.\<close>

definition onChangeField :: "field \<Rightarrow> string \<Rightarrow> form_state \<Rightarrow> form_state" where
  "onChangeField f v fs = setValue f v fs"

text \<open>The preview's three Korean placeholders (lines 99 to 102 of the source), as UTF-8 bytes.\<close>

definition placeholder :: "field \<Rightarrow> string" where
  "placeholder f = (case f of
     Title \<Rightarrow> utf8 [236, 160, 156, 235, 170, 169, 236, 157, 132, 32, 236, 158, 133, 235, 160, 165,
                  237, 149, 180, 236, 163, 188, 236, 132, 184, 236, 154, 148]
   | Subtitle \<Rightarrow> utf8 [235, 182, 128, 236, 160, 156, 235, 170, 169, 236, 157, 132, 32, 236, 158,
                  133, 235, 160, 165, 237, 149, 180, 236, 163, 188, 236, 132, 184, 236, 154, 148]
   | Category \<Rightarrow> utf8 [235, 182, 132, 235, 165, 152, 235, 143, 132, 32, 236, 158, 133, 235, 160,
                  165, 237, 149, 180, 235, 179, 180, 236, 132, 184, 236, 154, 148])"

text \<open>\<open><Title>{title ? title : placeholder}</Title>\<close> and the two like it.\<close>

definition preview_text :: "field \<Rightarrow> form_state \<Rightarrow> string" where
  "preview_text f fs = js_or_placeholder (useWatch f fs) (placeholder f)"

section \<open>Lemmas\<close>

lemma placeholder_nonempty [simp]: "placeholder f \<noteq> []"
  by (cases f) (simp_all add: placeholder_def)

lemma fvalues_setValue [simp]: "fvalues (setValue f v fs) = (fvalues fs)(f := Some v)"
  by (simp add: setValue_def)

lemma fdefaults_setValue [simp]: "fdefaults (setValue f v fs) = fdefaults fs"
  by (simp add: setValue_def)

lemma fdirty_setValue [simp]: "fdirty (setValue f v fs) = (fdirty fs)(f := (fdefaults fs f \<noteq> Some v))"
  by (simp add: setValue_def)

lemma setValue_commute:
  "f \<noteq> g \<Longrightarrow> setValue f v (setValue g w fs) = setValue g w (setValue f v fs)"
  by (simp add: setValue_def fun_upd_twist)

lemma preview_text_setValue:
  "preview_text g (setValue f v fs) = (if g = f then js_or_placeholder (Some v) (placeholder f) else preview_text g fs)"
  by (simp add: preview_text_def useWatch_def)

lemma preview_text_resetInput [simp]: "preview_text f (resetInput fs) = placeholder f"
  by (simp add: preview_text_def useWatch_def resetInput_def reset_def)

text \<open>
  C4. Typing \<open>s\<close> into a field's input shows \<open>s\<close> verbatim in the preview when it is non-empty
  and the field's placeholder when it is empty; the other two texts do not change.
\<close>

theorem preview_text_after_input:
  "preview_text g (onChangeField f s fs) =
     (if g = f then (if s = [] then placeholder f else s) else preview_text g fs)"
  by (simp add: onChangeField_def preview_text_setValue)

text \<open>
  C5. After any sequence of edits, \<open>resetInput\<close> empties every field, shows every placeholder,
  clears the dirty flags and makes the empty string the default, so that typing the empty
  string afterwards leaves the field clean.
\<close>

theorem resetInput_clears:
  "resetInput (foldl (\<lambda>fs (f, v). onChangeField f v fs) fs edits) = fs' \<Longrightarrow>
   useWatch f fs' = Some [] \<and> preview_text f fs' = placeholder f \<and> \<not> fdirty fs' f
   \<and> fdefaults fs' f = Some [] \<and> \<not> fdirty (onChangeField f [] fs') f"
  by (auto simp: resetInput_def reset_def useWatch_def preview_text_def onChangeField_def)

theorem resetInput_clears_witness:
  "resetInput (foldl (\<lambda>fs (f, v). onChangeField f v fs) useForm_init [(Title, ''Hello''), (Category, ''Demo'')]) =
     resetInput useForm_init
   \<and> useWatch Title (resetInput useForm_init) = Some [] \<and> preview_text Title (resetInput useForm_init) = placeholder Title
   \<and> \<not> fdirty (resetInput useForm_init) Title \<and> fdefaults (resetInput useForm_init) Title = Some []
   \<and> \<not> fdirty (onChangeField Title [] (resetInput useForm_init)) Title"
proof -
  have e: "resetInput (foldl (\<lambda>fs (f, v). onChangeField f v fs) useForm_init [(Title, ''Hello''), (Category, ''Demo'')]) =
     resetInput useForm_init"
    by (simp add: resetInput_def reset_def onChangeField_def setValue_def useForm_init_def)
  from resetInput_clears [OF e, of Title] e show ?thesis by simp
qed

end
