(* ===== verification/DataUrl.thy ===== *)
theory DataUrl
  imports Prelude "HOL-Library.Word"
begin

text \<open>
  The file an image upload hands to \<open>onChangeImage\<close> and what
  \<open>reader.readAsDataURL(fileBlob)\<close> makes of it: \<open>data:<type>;base64,<payload>\<close>, the payload
  being the blob's bytes in base64 (RFC 4648, with \<open>=\<close> padding). FileReader is a browser
  API, modelled from the File API specification. A byte is an \<open>8 word\<close>; each group of three
  bytes is read as a 24-bit number and written as four 6-bit digits. \<open>decode_data_url\<close> reads
  such a URL back; it is the decoder the spec's round-trip property refers to.
\<close>

type_synonym byte = "8 word"

record blob =
  blob_type :: string
  blob_bytes :: "byte list"

definition base64_alphabet :: string where
  "base64_alphabet = ''ABCDEFGHIJKLMNOPQRSTUVWXYZabcdefghijklmnopqrstuvwxyz0123456789+/''"

definition b64_digit :: "nat \<Rightarrow> char" where
  "b64_digit k = base64_alphabet ! (k mod 64)"

text \<open>The 24-bit number of a group of up to three bytes, the missing ones being zero.\<close>

definition group24 :: "byte \<Rightarrow> byte \<Rightarrow> byte \<Rightarrow> nat" where
  "group24 a b c = unat a * 65536 + unat b * 256 + unat c"

fun base64_encode :: "byte list \<Rightarrow> string" where
  "base64_encode (a # b # c # rest) =
     (let n = group24 a b c
      in [b64_digit (n div 262144), b64_digit (n div 4096), b64_digit (n div 64), b64_digit n]
         @ base64_encode rest)"
| "base64_encode [a, b] =
     (let n = group24 a b 0 in [b64_digit (n div 262144), b64_digit (n div 4096), b64_digit (n div 64), CHR ''='']) "
| "base64_encode [a] =
     (let n = group24 a 0 0 in [b64_digit (n div 262144), b64_digit (n div 4096), CHR ''='', CHR ''=''])"
| "base64_encode [] = []"

text \<open>\<open>reader.result\<close> after \<open>readAsDataURL(blob)\<close>.\<close>

definition readAsDataURL :: "blob \<Rightarrow> string" where
  "readAsDataURL b = ''data:'' @ blob_type b @ '';base64,'' @ base64_encode (blob_bytes b)"

definition b64_value :: "char \<Rightarrow> nat option" where
  "b64_value c = (let i = index_of c base64_alphabet in if i < 64 then Some i else None)"

text \<open>Four digits back to three bytes; padding drops the bytes it stands for.\<close>

definition bytes_of24 :: "nat \<Rightarrow> byte list" where
  "bytes_of24 n = [word_of_nat (n div 65536), word_of_nat (n div 256), word_of_nat n]"

fun base64_decode :: "string \<Rightarrow> byte list option" where
  "base64_decode [] = Some []"
| "base64_decode (c0 # c1 # c2 # c3 # rest) =
     (case (b64_value c0, b64_value c1) of
        (Some d0, Some d1) \<Rightarrow>
          if c2 = CHR ''='' \<and> c3 = CHR ''='' \<and> rest = [] then
            Some (take 1 (bytes_of24 (d0 * 262144 + d1 * 4096)))
          else (case b64_value c2 of
            None \<Rightarrow> None
          | Some d2 \<Rightarrow>
              if c3 = CHR ''='' \<and> rest = [] then Some (take 2 (bytes_of24 (d0 * 262144 + d1 * 4096 + d2 * 64)))
              else (case b64_value c3 of
                None \<Rightarrow> None
              | Some d3 \<Rightarrow> map_option ((@) (bytes_of24 (d0 * 262144 + d1 * 4096 + d2 * 64 + d3)))
                             (base64_decode rest)))
      | _ \<Rightarrow> None)"
| "base64_decode _ = None"

text \<open>A data URL with a base64 payload, split into its media type and its bytes.\<close>

definition decode_data_url :: "string \<Rightarrow> (string \<times> byte list) option" where
  "decode_data_url u =
     (if take 5 u = ''data:'' then
        (let rest = drop 5 u; i = index_of (CHR '';'') rest
         in if i < length rest \<and> take 8 (drop i rest) = '';base64,''
            then map_option (Pair (take i rest)) (base64_decode (drop (i + 8) rest))
            else None)
      else None)"

section \<open>Lemmas\<close>

lemma unat_byte_lt: "unat (a :: byte) < 256"
  using unsigned_less [of a] by simp

lemma word_of_nat_byte_mod: "(word_of_nat n :: byte) = word_of_nat (n mod 256)"
  by (simp add: word_of_nat_eq_iff take_bit_eq_mod)

lemma word_of_nat_byte_low: "(word_of_nat (x * 256 + unat b) :: byte) = b"
proof -
  have "(x * 256 + unat b) mod 256 = unat b" using unat_byte_lt [of b] by simp
  then show ?thesis by (subst word_of_nat_byte_mod) simp
qed

lemma length_base64_alphabet: "length base64_alphabet = 64"
  by (simp add: base64_alphabet_def)

lemma distinct_base64_alphabet: "distinct base64_alphabet"
  by (simp add: base64_alphabet_def)

lemma b64_value_digit [simp]: "b64_value (b64_digit k) = Some (k mod 64)"
  using index_of_nth [OF distinct_base64_alphabet, of "k mod 64"]
  by (simp add: b64_value_def b64_digit_def length_base64_alphabet)

lemma b64_digit_not_pad [simp]: "b64_digit k \<noteq> CHR ''=''"
proof
  assume "b64_digit k = CHR ''=''"
  then have "CHR ''='' \<in> set base64_alphabet"
    by (metis b64_digit_def length_base64_alphabet mod_less_divisor nth_mem zero_less_numeral)
  then show False by (simp add: base64_alphabet_def)
qed

lemma group24_lt: "group24 a b c < 16777216"
  using unat_byte_lt [of a] unat_byte_lt [of b] unat_byte_lt [of c] by (simp add: group24_def)

lemma digits24_sum:
  "(n::nat) < 16777216 \<Longrightarrow> n div 262144 * 262144 + n div 4096 mod 64 * 4096 + n div 64 mod 64 * 64 + n mod 64 = n"
proof -
  have a: "n mod (4096 * 64) = 4096 * (n div 4096 mod 64) + n mod 4096" by (rule mod_mult2_eq)
  have b: "n mod (64 * 64) = 64 * (n div 64 mod 64) + n mod 64" by (rule mod_mult2_eq)
  have c: "n = 262144 * (n div 262144) + n mod 262144" by simp
  from a b c show ?thesis by simp
qed

lemma group24_top: "group24 a b c div 262144 mod 64 = group24 a b c div 262144"
  using group24_lt [of a b c] by simp

lemma bytes_of24_group: "bytes_of24 (group24 a b c) = [a, b, c]"
proof -
  have h1: "group24 a b c div 65536 = unat a"
    using unat_byte_lt [of b] unat_byte_lt [of c] by (simp add: group24_def)
  have h2: "group24 a b c div 256 = unat a * 256 + unat b"
    using unat_byte_lt [of c] by (simp add: group24_def)
  have h3: "group24 a b c = (unat a * 256 + unat b) * 256 + unat c"
    by (simp add: group24_def)
  have w1: "(word_of_nat (group24 a b c div 65536) :: byte) = a"
    unfolding h1 by simp
  have w2: "(word_of_nat (group24 a b c div 256) :: byte) = b"
    unfolding h2 by (rule word_of_nat_byte_low)
  have w3: "(word_of_nat (group24 a b c) :: byte) = c"
    unfolding h3 by (rule word_of_nat_byte_low)
  show ?thesis by (simp only: bytes_of24_def w1 w2 w3)
qed

lemma group24_pad2: "group24 a b 0 mod 64 = 0"
proof -
  have "group24 a b 0 = 64 * (unat a * 1024 + unat b * 4)" by (simp add: group24_def)
  then show ?thesis by simp
qed

lemma group24_pad1: "group24 a 0 0 div 64 mod 64 = 0 \<and> group24 a 0 0 mod 64 = 0"
proof -
  have "group24 a 0 0 = 4096 * (16 * unat a)" by (simp add: group24_def)
  then show ?thesis by simp
qed

lemma base64_decode_encode: "base64_decode (base64_encode bs) = Some bs"
proof (induction bs rule: base64_encode.induct)
  case (1 a b c rest)
  let ?n = "group24 a b c"
  have "?n div 262144 * 262144 + ?n div 4096 mod 64 * 4096 + ?n div 64 mod 64 * 64 + ?n mod 64 = ?n"
    using group24_lt by (rule digits24_sum)
  then show ?case using "1.IH" by (simp add: Let_def bytes_of24_group group24_top)
next
  case (2 a b)
  let ?n = "group24 a b 0"
  have "?n div 262144 * 262144 + ?n div 4096 mod 64 * 4096 + ?n div 64 mod 64 * 64 = ?n"
    using digits24_sum [OF group24_lt, of a b 0] group24_pad2 [of a b] by simp
  then show ?case by (simp add: Let_def bytes_of24_group group24_top)
next
  case (3 a)
  let ?n = "group24 a 0 0"
  have "?n div 262144 * 262144 + ?n div 4096 mod 64 * 4096 = ?n"
    using digits24_sum [OF group24_lt, of a 0 0] group24_pad1 [of a] by simp
  then show ?case by (simp add: Let_def bytes_of24_group group24_top)
qed simp

lemma index_of_append_notin: "x \<notin> set xs \<Longrightarrow> index_of x (xs @ x # ys) = length xs"
  by (induction xs) auto

lemma decode_readAsDataURL:
  "CHR '';'' \<notin> set (blob_type b) \<Longrightarrow>
   decode_data_url (readAsDataURL b) = Some (blob_type b, blob_bytes b)"
  by (simp add: decode_data_url_def readAsDataURL_def index_of_append_notin base64_decode_encode)

lemma set_base64_encode: "set (base64_encode bs) \<subseteq> insert (CHR ''='') (set base64_alphabet)"
proof (induction bs rule: base64_encode.induct)
  case (1 a b c rest)
  then show ?case
    by (auto simp: Let_def b64_digit_def length_base64_alphabet)
qed (auto simp: Let_def b64_digit_def length_base64_alphabet)

lemma length_base64_encode: "length (base64_encode bs) = 4 * ((length bs + 2) div 3)"
proof (induction bs rule: base64_encode.induct)
  case (1 a b c rest)
  have "(5 + length rest) div 3 = Suc ((length rest + 2) div 3)" by simp
  with "1.IH" show ?case by (simp add: Let_def)
qed (simp_all add: Let_def)

end
