(* ===== verification/App.thy ===== *)
theory App
  imports Background Form DataUrl
begin

text \<open>
  The component \<open>Main\<close> of \<open>src/pages/main/index.tsx\<close> as one state machine. Its state is the
  react-hook-form state, the inline style of the preview element, the \<open>image\<close> state of
  \<open>useState\<close> (field \<open>image_state\<close>), the stream of values \<open>Math.random\<close> will
  return, the operations in flight
  (a \<open>fetch\<close> started by \<open>onClickRandomImage\<close>, a \<open>FileReader\<close> started by
  \<open>onChangeImage\<close>), and the hidden file input: its current selection and whether the file
  dialog opened by \<open>onClickImageUploadButton\<close> is showing.

  An event is a user action on the rendered JSX or the completion of an operation in flight.
  Completions come in any order: \<open>FetchSettle i\<close> and \<open>ReaderSettle i\<close> settle the
  \<open>i\<close>-th pending operation with an outcome the environment chooses. While the file dialog is
  showing it is modal: no user action reaches the page, but operations still complete. A
  handler that throws leaves the state as it was when it threw; the error is the first
  component of the step's result (\<open>TypeError\<close> from \<open>readAsDataURL(undefined)\<close>, an
  unhandled rejection from the fetch promise, which has no \<open>catch\<close>).
\<close>

datatype task = FetchTask | ReadTask blob

datatype fetch_outcome = FetchResponse nat string | FetchNetworkError

datatype read_outcome = ReadLoad | ReadFailure

datatype js_error = TypeError | UnhandledRejection

record app =
  form :: form_state
  style :: preview_style
  image_state :: string
  rng :: rng
  pending :: "task list"
  upload_resolved :: nat
  file_selection :: "blob list"
  picker_open :: bool

definition app_init :: "rng \<Rightarrow> app" where
  "app_init g =
     \<lparr>form = useForm_init, style = preview_initial, image_state = [], rng = g, pending = [],
      upload_resolved = 0, file_selection = [], picker_open = False\<rparr>"

datatype event =
  Input field string
| ClickRandomGradient
| ClickRandomColor
| ClickRandomImage
| ClickImageUpload
| ClickRefresh
| PickerClose "blob list"
| FetchSettle nat fetch_outcome
| ReaderSettle nat read_outcome

section \<open>Handlers\<close>

definition onClickRandomGradient_app :: "app \<Rightarrow> app" where
  "onClickRandomGradient_app s =
     (let (st, g) = onClickRandomGradient (style s) (rng s) in s\<lparr>style := st, rng := g\<rparr>)"

definition onClickRandomColor_app :: "app \<Rightarrow> app" where
  "onClickRandomColor_app s =
     (let (st, g) = onClickRandomColor (style s) (rng s) in s\<lparr>style := st, rng := g\<rparr>)"

text \<open>\<open>onClickRandomImage\<close>: the fetch is started; its \<open>then\<close> runs when it settles.\<close>

definition onClickRandomImage :: "app \<Rightarrow> app" where
  "onClickRandomImage s = s\<lparr>pending := pending s @ [FetchTask]\<rparr>"

text \<open>\<open>onClickImageUploadButton\<close>: \<open>imageRef.current.click()\<close> opens the file dialog.\<close>

definition onClickImageUploadButton :: "app \<Rightarrow> app" where
  "onClickImageUploadButton s = s\<lparr>picker_open := True\<rparr>"

text \<open>
  \<open>onChangeImage(fileBlob)\<close>: \<open>readAsDataURL\<close> throws a \<open>TypeError\<close> when \<open>fileBlob\<close> is
  \<open>undefined\<close>, before the reader or the promise exists; otherwise the read is started.
\<close>

definition onChangeImage :: "blob option \<Rightarrow> app \<Rightarrow> js_error + app" where
  "onChangeImage fileBlob s =
     (case fileBlob of
        None \<Rightarrow> Inl TypeError
      | Some b \<Rightarrow> Inr (s\<lparr>pending := pending s @ [ReadTask b]\<rparr>))"

text \<open>The input's \<open>onChange={(event) => onChangeImage(event.target.files[0])}\<close>.\<close>

definition file_input_onChange :: "blob list \<Rightarrow> app \<Rightarrow> js_error + app" where
  "file_input_onChange files s = onChangeImage (case files of [] \<Rightarrow> None | f # _ \<Rightarrow> Some f) s"

text \<open>
  \<open>reader.onload\<close>: the background becomes \<open>url(${file})\<close>, covered; \<open>setImage(file)\<close>;
  \<open>resolve()\<close>.
\<close>

definition reader_onload :: "blob \<Rightarrow> app \<Rightarrow> app" where
  "reader_onload b s =
     (let file = readAsDataURL b
      in s\<lparr>style := onload_style file (style s), image_state := file,
             upload_resolved := Suc (upload_resolved s)\<rparr>)"

text \<open>
  The settled fetch: any response, whatever its status, reaches the \<open>then\<close> callback; a network
  error rejects the promise, and no handler catches it.
\<close>

definition settle_fetch :: "fetch_outcome \<Rightarrow> app \<Rightarrow> js_error option \<times> app" where
  "settle_fetch out s =
     (case out of
        FetchResponse status url \<Rightarrow> (None, s\<lparr>style := fetch_then url (style s)\<rparr>)
      | FetchNetworkError \<Rightarrow> (Some UnhandledRejection, s))"

text \<open>The settled read: \<open>onload\<close> on success; no \<open>onerror\<close> handler is installed.\<close>

definition settle_read :: "blob \<Rightarrow> read_outcome \<Rightarrow> app \<Rightarrow> app" where
  "settle_read b out s = (case out of ReadLoad \<Rightarrow> reader_onload b s | ReadFailure \<Rightarrow> s)"

definition remove_nth :: "nat \<Rightarrow> 'a list \<Rightarrow> 'a list" where
  "remove_nth i xs = take i xs @ drop (Suc i) xs"

definition run_handler :: "(app \<Rightarrow> js_error + app) \<Rightarrow> app \<Rightarrow> js_error option \<times> app" where
  "run_handler h s = (case h s of Inl e \<Rightarrow> (Some e, s) | Inr s' \<Rightarrow> (None, s'))"

section \<open>Steps\<close>

text \<open>
  One event; \<open>None\<close> when the event cannot happen in the state (a user action while the
  modal file dialog shows, a dialog closing that is not open, a completion of an operation
  that is not in flight).
\<close>

fun app_step :: "app \<Rightarrow> event \<Rightarrow> (js_error option \<times> app) option" where
  "app_step s (Input f v) =
     (if picker_open s then None else Some (None, s\<lparr>form := onChangeField f v (form s)\<rparr>))"
| "app_step s ClickRandomGradient =
     (if picker_open s then None else Some (None, onClickRandomGradient_app s))"
| "app_step s ClickRandomColor =
     (if picker_open s then None else Some (None, onClickRandomColor_app s))"
| "app_step s ClickRandomImage =
     (if picker_open s then None else Some (None, onClickRandomImage s))"
| "app_step s ClickImageUpload =
     (if picker_open s then None else Some (None, onClickImageUploadButton s))"
| "app_step s ClickRefresh = (if picker_open s then None else Some (None, s))"
| "app_step s (PickerClose sel) =
     (if \<not> picker_open s then None
      else if sel = file_selection s then Some (None, s\<lparr>picker_open := False\<rparr>)
      else Some (run_handler (file_input_onChange sel) (s\<lparr>picker_open := False, file_selection := sel\<rparr>)))"
| "app_step s (FetchSettle i out) =
     (if i < length (pending s) \<and> pending s ! i = FetchTask
      then Some (settle_fetch out (s\<lparr>pending := remove_nth i (pending s)\<rparr>))
      else None)"
| "app_step s (ReaderSettle i out) =
     (if i < length (pending s)
      then (case pending s ! i of
              ReadTask b \<Rightarrow> Some (None, settle_read b out (s\<lparr>pending := remove_nth i (pending s)\<rparr>))
            | FetchTask \<Rightarrow> None)
      else None)"

text \<open>A run of events from a state: the final state, or \<open>None\<close> if some event cannot happen.\<close>

fun app_run :: "app \<Rightarrow> event list \<Rightarrow> app option" where
  "app_run s [] = Some s"
| "app_run s (e # es) = (case app_step s e of None \<Rightarrow> None | Some (_, s') \<Rightarrow> app_run s' es)"

inductive reachable :: "app \<Rightarrow> bool" where
  init: "valid_rng g \<Longrightarrow> reachable (app_init g)"
| step: "reachable s \<Longrightarrow> app_step s e = Some (r, s') \<Longrightarrow> reachable s'"

section \<open>Rendering\<close>

text \<open>
  What the preview shows: the three texts, the background (the style sheet's \<open>#000000\<close>
  while no inline background is set) and whether the image is scaled to cover.
\<close>

record view =
  v_title :: string
  v_subtitle :: string
  v_category :: string
  v_background :: string
  v_cover :: bool

definition render :: "app \<Rightarrow> view" where
  "render s =
     \<lparr>v_title = preview_text Title (form s), v_subtitle = preview_text Subtitle (form s),
      v_category = preview_text Category (form s),
      v_background = (if background (style s) = [] then ''#000000'' else background (style s)),
      v_cover = (backgroundSize (style s) = ''cover'')\<rparr>"

text \<open>The events whose handler assigns the preview's background.\<close>

definition writes_background :: "event \<Rightarrow> bool" where
  "writes_background e = (case e of
     ClickRandomGradient \<Rightarrow> True
   | ClickRandomColor \<Rightarrow> True
   | FetchSettle _ (FetchResponse _ _) \<Rightarrow> True
   | ReaderSettle _ ReadLoad \<Rightarrow> True
   | _ \<Rightarrow> False)"

text \<open>The invariant: the random stream stays valid, the style shows a well-formed descriptor or
  nothing, and no default value is ever set in the form.\<close>

definition bg_printed :: "preview_style \<Rightarrow> bool" where
  "bg_printed st \<longleftrightarrow>
     (case parse_css_background (background st) of None \<Rightarrow> True | Some v \<Rightarrow> css_text v = background st)"

definition style_ok :: "preview_style \<Rightarrow> bool" where
  "style_ok st \<longleftrightarrow>
     (background st = [] \<or> (case abs_background st of None \<Rightarrow> False | Some d \<Rightarrow> descriptor_wf d))
     \<and> bg_printed st"

definition app_inv :: "app \<Rightarrow> bool" where
  "app_inv s \<longleftrightarrow> valid_rng (rng s) \<and> style_ok (style s) \<and> fdefaults (form s) = (\<lambda>_. None)"

text \<open>A sample upload and a sample random stream for the witnesses.\<close>

definition sample_png :: blob where
  "sample_png = \<lparr>blob_type = ''image/png'', blob_bytes = [137, 80, 78, 71]\<rparr>"

definition sample_rng :: rng where
  "sample_rng = cycle [UDouble 0 0]"

section \<open>Lemmas\<close>

lemma parse_css_background_Nil [simp]: "parse_css_background [] = None"
  by (simp add: parse_css_background_def strip_affix_def is_hex_color_def)

lemma parse_css_background_wf: "parse_css_background s = Some v \<Longrightarrow> css_wf v"
  by (auto simp: parse_css_background_def parse_gradient_args_def css_wf_def Let_def
      split: if_splits option.splits)

lemma bg_printed_css: "css_wf v \<Longrightarrow> bg_printed (st\<lparr>background := css_text v, backgroundSize := x\<rparr>)"
  by (simp add: bg_printed_def parse_css_background_text del: css_text_def)

lemma bg_printed_size: "bg_printed (st\<lparr>backgroundSize := x\<rparr>) = bg_printed st"
  by (simp add: bg_printed_def split: option.split)

lemma style_ok_initial: "style_ok preview_initial"
  by (simp add: style_ok_def bg_printed_def preview_initial_def)

lemma style_ok_gradient:
  "valid_rng g \<Longrightarrow> style_ok (st\<lparr>background := css_text (gradient_of g), backgroundSize := ''initial''\<rparr>)"
  using gradient_of_wf [of g] abs_background_set_gradient bg_printed_css [of "gradient_of g"]
  by (simp add: style_ok_def gradient_of_def descriptor_wf_def css_wf_def del: css_text_def)

lemma style_ok_color:
  "valid_rng g \<Longrightarrow> style_ok (st\<lparr>background := fst (randomColor g), backgroundSize := ''initial''\<rparr>)"
  using randomColor_hex_color [of g] bg_printed_css [of "CssColor (fst (randomColor g))"]
  by (simp add: style_ok_def abs_background_set_color descriptor_wf_def css_wf_def css_text_def)

lemma style_ok_fetch_then: "style_ok st \<Longrightarrow> style_ok (fetch_then u st)"
proof (cases "list_all url_char_ok u")
  case True
  have "fetch_then u st = st\<lparr>background := css_text (CssUrl u), backgroundSize := ''initial''\<rparr>"
    using True by (simp add: fetch_then_ok css_text_def)
  moreover have "bg_printed (st\<lparr>background := css_text (CssUrl u), backgroundSize := ''initial''\<rparr>)"
    using True by (intro bg_printed_css) (simp add: css_wf_def)
  ultimately have "bg_printed (fetch_then u st)" by simp
  with True show ?thesis
    by (simp add: style_ok_def abs_background_fetch_then descriptor_wf_def)
qed (simp add: fetch_then_bad)

lemma style_ok_cover: "style_ok st \<Longrightarrow> style_ok (st\<lparr>backgroundSize := v\<rparr>)"
  by (auto simp: style_ok_def bg_printed_size abs_background_def descriptor_wf_def
      dest: parse_css_background_wf [unfolded css_wf_def]
      split: option.splits css_background.splits)

lemma style_ok_onload: "style_ok st \<Longrightarrow> style_ok (onload_style f st)"
proof (cases "list_all url_char_ok f")
  case True
  have "onload_style f st = st\<lparr>background := css_text (CssUrl f), backgroundSize := ''cover''\<rparr>"
    using True by (simp add: onload_style_ok css_text_def)
  moreover have "bg_printed (st\<lparr>background := css_text (CssUrl f), backgroundSize := ''cover''\<rparr>)"
    using True by (intro bg_printed_css) (simp add: css_wf_def)
  ultimately have "bg_printed (onload_style f st)" by simp
  with True show ?thesis
    by (simp add: style_ok_def abs_background_onload_style descriptor_wf_def)
next
  case False
  then show "style_ok st \<Longrightarrow> ?thesis" by (simp add: onload_style_bad style_ok_cover)
qed

lemma app_inv_init: "valid_rng g \<Longrightarrow> app_inv (app_init g)"
  by (simp add: app_inv_def app_init_def style_ok_initial useForm_init_def)

lemma app_inv_step: "app_inv s \<Longrightarrow> app_step s e = Some (r, s') \<Longrightarrow> app_inv s'"
proof (cases e)
  case (Input f v)
  then show "app_inv s \<Longrightarrow> app_step s e = Some (r, s') \<Longrightarrow> app_inv s'"
    by (auto simp: app_inv_def onChangeField_def split: if_splits)
next
  case ClickRandomGradient
  then show "app_inv s \<Longrightarrow> app_step s e = Some (r, s') \<Longrightarrow> app_inv s'"
    by (auto simp: app_inv_def onClickRandomGradient_app_def onClickRandomGradient_eq
        style_ok_gradient valid_rng_sdrop split: if_splits)
next
  case ClickRandomColor
  then show "app_inv s \<Longrightarrow> app_step s e = Some (r, s') \<Longrightarrow> app_inv s'"
    by (auto simp: app_inv_def onClickRandomColor_app_def onClickRandomColor_eq
        style_ok_color valid_rng_sdrop split: if_splits)
next
  case (PickerClose sel)
  then show "app_inv s \<Longrightarrow> app_step s e = Some (r, s') \<Longrightarrow> app_inv s'"
    by (auto simp: app_inv_def run_handler_def file_input_onChange_def onChangeImage_def
        split: if_splits list.splits sum.splits)
next
  case (FetchSettle i out)
  then show "app_inv s \<Longrightarrow> app_step s e = Some (r, s') \<Longrightarrow> app_inv s'"
    by (auto simp: app_inv_def settle_fetch_def style_ok_fetch_then split: if_splits fetch_outcome.splits)
next
  case (ReaderSettle i out)
  then show "app_inv s \<Longrightarrow> app_step s e = Some (r, s') \<Longrightarrow> app_inv s'"
    by (auto simp: app_inv_def settle_read_def reader_onload_def style_ok_onload Let_def
        split: if_splits task.splits read_outcome.splits)
qed (auto simp: app_inv_def onClickRandomImage_def onClickImageUploadButton_def split: if_splits)

lemma reachable_app_inv: "reachable s \<Longrightarrow> app_inv s"
  by (induction rule: reachable.induct) (auto intro: app_inv_init app_inv_step)

lemma url_char_ok_base64: "\<forall>c \<in> set base64_alphabet. url_char_ok c"
  by (simp add: base64_alphabet_def url_char_ok_def)

lemma url_ok_readAsDataURL:
  "list_all url_char_ok (blob_type b) \<Longrightarrow> list_all url_char_ok (readAsDataURL b)"
proof -
  assume t: "list_all url_char_ok (blob_type b)"
  have "list_all url_char_ok (base64_encode (blob_bytes b))"
    using set_base64_encode [of "blob_bytes b"] url_char_ok_base64
    by (auto simp: list_all_iff url_char_ok_def)
  with t show ?thesis by (simp add: readAsDataURL_def url_char_ok_def)
qed

lemma valid_sample_rng: "valid_rng sample_rng"
  by (simp add: sample_rng_def valid_rng_def valid_random_def)

section \<open>Properties\<close>

text \<open>
  C6. Uploading a file whose media type is a plain CSS-safe token shows it covered, and the
  URL the preview and the \<open>image\<close> state hold decodes back to the file's media type and bytes.
\<close>

theorem upload_roundtrip:
  assumes step: "app_step s (ReaderSettle i ReadLoad) = Some (r, s')"
    and task: "pending s ! i = ReadTask b"
    and ty: "list_all url_char_ok (blob_type b)" "CHR '';'' \<notin> set (blob_type b)"
  shows "abs_background (style s') = Some (UploadedImage (image_state s')) \<and> v_cover (render s')
         \<and> decode_data_url (image_state s') = Some (blob_type b, blob_bytes b)"
proof -
  from step task have s': "s' = reader_onload b (s\<lparr>pending := remove_nth i (pending s)\<rparr>)"
    by (simp add: settle_read_def split: if_splits)
  have ok: "list_all url_char_ok (readAsDataURL b)" using ty(1) by (rule url_ok_readAsDataURL)
  show ?thesis
    using ok ty(2)
    by (simp add: s' reader_onload_def abs_background_onload_style render_def Let_def
        decode_readAsDataURL)
qed

theorem upload_roundtrip_witness:
  "(\<exists>r s'. app_step ((app_init sample_rng)\<lparr>pending := [ReadTask sample_png]\<rparr>) (ReaderSettle 0 ReadLoad) = Some (r, s')
     \<and> abs_background (style s') = Some (UploadedImage (image_state s')) \<and> v_cover (render s')
     \<and> decode_data_url (image_state s') = Some (''image/png'', [137, 80, 78, 71]))"
proof -
  let ?s = "(app_init sample_rng)\<lparr>pending := [ReadTask sample_png]\<rparr>"
  obtain r s' where st: "app_step ?s (ReaderSettle 0 ReadLoad) = Some (r, s')"
    by (simp add: settle_read_def)
  have t: "pending ?s ! 0 = ReadTask sample_png" by simp
  have ty: "list_all url_char_ok (blob_type sample_png)" "CHR '';'' \<notin> set (blob_type sample_png)"
    by (simp_all add: sample_png_def url_char_ok_def)
  from upload_roundtrip [OF st t ty] st show ?thesis by (auto simp: sample_png_def)
qed

text \<open>
  C7. A fetch that fails with a network error leaves the preview, the form and the \<open>image\<close>
  state as they were; the rejection is unhandled.
\<close>

theorem fetch_failure_keeps_preview:
  "app_step s (FetchSettle i FetchNetworkError) = Some (r, s') \<Longrightarrow>
   r = Some UnhandledRejection \<and> style s' = style s \<and> form s' = form s \<and> image_state s' = image_state s
   \<and> pending s' = remove_nth i (pending s)"
  by (auto simp: settle_fetch_def split: if_splits)

theorem fetch_failure_keeps_preview_witness:
  "\<exists>r s'. app_step (onClickRandomImage (app_init sample_rng)) (FetchSettle 0 FetchNetworkError) = Some (r, s')
     \<and> r = Some UnhandledRejection \<and> style s' = style (app_init sample_rng) \<and> pending s' = []"
proof -
  let ?s = "onClickRandomImage (app_init sample_rng)"
  obtain r s' where st: "app_step ?s (FetchSettle 0 FetchNetworkError) = Some (r, s')"
    by (simp add: onClickRandomImage_def settle_fetch_def app_init_def)
  from fetch_failure_keeps_preview [OF st] st show ?thesis
    by (auto simp: onClickRandomImage_def remove_nth_def app_init_def)
qed

text \<open>
  C8. A file read that fails leaves the preview, the form and the \<open>image\<close> state as they were,
  and the promise \<open>onChangeImage\<close> returned is never resolved.
\<close>

theorem read_failure_keeps_preview:
  "app_step s (ReaderSettle i ReadFailure) = Some (r, s') \<Longrightarrow>
   r = None \<and> style s' = style s \<and> form s' = form s \<and> image_state s' = image_state s
   \<and> upload_resolved s' = upload_resolved s \<and> pending s' = remove_nth i (pending s)"
  by (auto simp: settle_read_def split: if_splits task.splits)

theorem read_failure_keeps_preview_witness:
  "\<exists>r s'. app_step ((app_init sample_rng)\<lparr>pending := [ReadTask sample_png]\<rparr>) (ReaderSettle 0 ReadFailure) = Some (r, s')
     \<and> r = None \<and> style s' = style (app_init sample_rng) \<and> upload_resolved s' = 0"
proof -
  let ?s = "(app_init sample_rng)\<lparr>pending := [ReadTask sample_png]\<rparr>"
  obtain r s' where st: "app_step ?s (ReaderSettle 0 ReadFailure) = Some (r, s')"
    by (simp add: settle_read_def)
  from read_failure_keeps_preview [OF st] st show ?thesis by (auto simp: app_init_def)
qed

text \<open>
  C10. In every reachable state the preview shows either no inline background (the style sheet's
  black) or a well-formed descriptor of the spec: a gradient with an angle in \<open>[0, 360)\<close> and
  two hex colours, a hex colour, or an image URL that is a valid CSS url token.
\<close>

theorem reachable_background_descriptor:
  "reachable s \<Longrightarrow> background (style s) = [] \<or> (\<exists>d. abs_background (style s) = Some d \<and> descriptor_wf d)"
  by (auto dest!: reachable_app_inv simp: app_inv_def style_ok_def split: option.splits)

theorem reachable_background_descriptor_witness:
  "reachable (app_init sample_rng) \<and>
   (background (style (app_init sample_rng)) = [] \<or>
    (\<exists>d. abs_background (style (app_init sample_rng)) = Some d \<and> descriptor_wf d))"
proof -
  have r: "reachable (app_init sample_rng)" using valid_sample_rng by (rule reachable.init)
  with reachable_background_descriptor [OF r] show ?thesis by simp
qed

text \<open>
  C11. Only four events change the preview's style: the gradient and colour buttons, a fetch that
  receives a response and a file read that loads. Every other event and every failure leaves it.
\<close>

theorem only_writers_change_style:
  "app_step s e = Some (r, s') \<Longrightarrow> \<not> writes_background e \<Longrightarrow> style s' = style s"
  by (cases e)
     (auto simp: writes_background_def onChangeField_def onClickRandomImage_def
        onClickImageUploadButton_def run_handler_def file_input_onChange_def onChangeImage_def
        settle_fetch_def settle_read_def
        split: if_splits list.splits sum.splits option.splits task.splits fetch_outcome.splits
          read_outcome.splits)

theorem only_writers_change_style_witness:
  "\<exists>r s'. app_step (app_init sample_rng) ClickRandomImage = Some (r, s')
     \<and> \<not> writes_background ClickRandomImage \<and> style s' = style (app_init sample_rng)"
proof -
  obtain r s' where st: "app_step (app_init sample_rng) ClickRandomImage = Some (r, s')"
    by (simp add: app_init_def)
  have w: "\<not> writes_background ClickRandomImage" by (simp add: writes_background_def)
  from only_writers_change_style [OF st w] st w show ?thesis by blast
qed

text \<open>
  C12. A fetch that receives any response, an HTTP error status included, replaces the preview's
  background with \<open>url(response.url)\<close>, and the image is not scaled to cover.
\<close>

theorem fetch_response_any_status:
  "app_step s (FetchSettle i (FetchResponse status u)) = Some (r, s') \<Longrightarrow> list_all url_char_ok u \<Longrightarrow>
   abs_background (style s') = Some (RemoteImage u) \<and> v_background (render s') = ''url('' @ u @ '')''
   \<and> \<not> v_cover (render s')"
  by (auto simp: settle_fetch_def abs_background_fetch_then fetch_then_fields render_def split: if_splits)

theorem fetch_response_any_status_witness:
  "\<exists>r s'. app_step (onClickRandomImage (app_init sample_rng))
           (FetchSettle 0 (FetchResponse 503 ''https://source.unsplash.com/503'')) = Some (r, s')
     \<and> abs_background (style s') = Some (RemoteImage ''https://source.unsplash.com/503'')
     \<and> \<not> v_cover (render s')"
proof -
  let ?s = "onClickRandomImage (app_init sample_rng)"
  obtain r s' where st: "app_step ?s (FetchSettle 0 (FetchResponse 503 ''https://source.unsplash.com/503'')) = Some (r, s')"
    by (simp add: onClickRandomImage_def settle_fetch_def app_init_def)
  have u: "list_all url_char_ok ''https://source.unsplash.com/503''" by (simp add: url_char_ok_def)
  from fetch_response_any_status [OF st u] st show ?thesis by blast
qed

text \<open>
  C13. Closing the file dialog with an empty selection when a file was selected calls
  \<open>onChangeImage(undefined)\<close>, which throws a \<open>TypeError\<close>; only the input's selection changes.
\<close>

theorem empty_selection_type_error:
  "picker_open s \<Longrightarrow> file_selection s \<noteq> [] \<Longrightarrow>
   app_step s (PickerClose []) = Some (Some TypeError, s\<lparr>picker_open := False, file_selection := []\<rparr>)"
  by (simp add: run_handler_def file_input_onChange_def onChangeImage_def)

theorem empty_selection_type_error_witness:
  "picker_open ((app_init sample_rng)\<lparr>picker_open := True, file_selection := [sample_png]\<rparr>)
   \<and> app_step ((app_init sample_rng)\<lparr>picker_open := True, file_selection := [sample_png]\<rparr>) (PickerClose []) =
       Some (Some TypeError, (app_init sample_rng)\<lparr>picker_open := False, file_selection := []\<rparr>)"
  using empty_selection_type_error [of "(app_init sample_rng)\<lparr>picker_open := True, file_selection := [sample_png]\<rparr>"]
  by simp

text \<open>
  C14. No reachable state has a default value in the form: \<open>resetInput\<close>, the only call of
  \<open>reset\<close>, is never run, since no element of the page calls it (the refresh button has no
  handler).
\<close>

theorem reset_never_reached:
  "reachable s \<Longrightarrow> fdefaults (form s) = (\<lambda>_. None)"
  by (auto dest!: reachable_app_inv simp: app_inv_def)

theorem reset_never_reached_witness:
  "reachable (app_init sample_rng) \<and> fdefaults (form (app_init sample_rng)) = (\<lambda>_. None)"
proof -
  have r: "reachable (app_init sample_rng)" using valid_sample_rng by (rule reachable.init)
  with reset_never_reached [OF r] show ?thesis by simp
qed

end
