(* ===== verification/Console.thy ===== *)
theory Console
  imports App
begin

text \<open>
  What \<open>Main\<close> writes to the browser console: \<open>useEffect(() => console.log(title), [title])\<close>
  (lines 91 to 93) and \<open>console.log(file)\<close> in \<open>reader.onload\<close> (line 67). React runs the
  effect after the first render and after every later render in which the dependency
  \<open>title\<close> changed (\<open>Object.is\<close>, which compares strings by content); each event of
  \<open>App\<close> is handled in a task of its own, so it is followed by at most one render. The
  console is a list of entries, oldest first; a step of the component appends what the
  handler logs, then what the effect logs.
\<close>

datatype log_entry = LogTitle "string option" | LogFile string

type_synonym console = "log_entry list"

text \<open>The value \<open>useWatch({ control, name: 'title' })\<close> has in a state.\<close>

definition title_of :: "app \<Rightarrow> string option" where
  "title_of s = useWatch Title (form s)"

text \<open>The effect after the render that follows a step from \<open>s\<close> to \<open>s'\<close>.\<close>

definition title_effect :: "app \<Rightarrow> app \<Rightarrow> console" where
  "title_effect s s' = (if title_of s' = title_of s then [] else [LogTitle (title_of s')])"

text \<open>\<open>console.log(file)\<close>: the handler of a completed read logs \<open>reader.result\<close>.\<close>

definition handler_log :: "app \<Rightarrow> event \<Rightarrow> console" where
  "handler_log s e =
     (case e of
        ReaderSettle i ReadLoad \<Rightarrow>
          (if i < length (pending s)
           then (case pending s ! i of ReadTask b \<Rightarrow> [LogFile (readAsDataURL b)] | FetchTask \<Rightarrow> [])
           else [])
      | _ \<Rightarrow> [])"

text \<open>Mounting \<open>Main\<close>: the first render, then the effect with \<open>title\<close> still \<open>undefined\<close>.\<close>

definition mount :: "rng \<Rightarrow> app \<times> console" where
  "mount g = (app_init g, [LogTitle None])"

definition console_step :: "app \<times> console \<Rightarrow> event \<Rightarrow> (app \<times> console) option" where
  "console_step sc e =
     (case app_step (fst sc) e of
        None \<Rightarrow> None
      | Some (_, s') \<Rightarrow> Some (s', snd sc @ handler_log (fst sc) e @ title_effect (fst sc) s'))"

fun console_run :: "app \<times> console \<Rightarrow> event list \<Rightarrow> (app \<times> console) option" where
  "console_run sc [] = Some sc"
| "console_run sc (e # es) = (case console_step sc e of None \<Rightarrow> None | Some sc' \<Rightarrow> console_run sc' es)"

text \<open>The states a run of events passes through, the start excluded.\<close>

fun run_states :: "app \<Rightarrow> event list \<Rightarrow> app list option" where
  "run_states s [] = Some []"
| "run_states s (e # es) =
     (case app_step s e of
        None \<Rightarrow> None
      | Some (_, s') \<Rightarrow> (case run_states s' es of None \<Rightarrow> None | Some ss \<Rightarrow> Some (s' # ss)))"

fun title_entries :: "console \<Rightarrow> string option list" where
  "title_entries [] = []"
| "title_entries (LogTitle t # c) = t # title_entries c"
| "title_entries (LogFile _ # c) = title_entries c"

section \<open>Lemmas\<close>

lemma title_entries_append [simp]: "title_entries (c @ d) = title_entries c @ title_entries d"
  by (induction c rule: title_entries.induct) simp_all

lemma title_entries_handler_log [simp]: "title_entries (handler_log s e) = []"
  by (simp add: handler_log_def split: event.split read_outcome.split task.split)

lemma title_entries_effect:
  "title_entries (title_effect s s') = (if title_of s' = title_of s then [] else [title_of s'])"
  by (simp add: title_effect_def)

lemma console_run_states:
  "console_run (s, c) es = Some (s', c') \<Longrightarrow> remdups_adj (p @ [title_of s]) = title_entries c \<Longrightarrow>
   \<exists>ss. run_states s es = Some ss \<and> title_entries c' = remdups_adj (p @ title_of s # map title_of ss)"
proof (induction es arbitrary: s c p)
  case Nil
  then show ?case by simp
next
  case (Cons e es)
  from Cons.prems(1) obtain r s1 where st: "app_step s e = Some (r, s1)"
    and run: "console_run (s1, c @ handler_log s e @ title_effect s s1) es = Some (s', c')"
    by (auto simp: console_step_def split: option.splits)
  have "remdups_adj ((p @ [title_of s]) @ [title_of s1])
        = title_entries (c @ handler_log s e @ title_effect s s1)"
    using Cons.prems(2) remdups_adj_append_two [of p "title_of s" "title_of s1"]
    by (simp add: title_entries_effect)
  from Cons.IH [OF run this] st show ?case by auto
qed

section \<open>Properties\<close>

text \<open>
  C17. The titles the effect logs over any run from mounting are the run's successive
  \<open>title\<close> values with adjacent repetitions removed (\<open>remdups_adj\<close>), starting with
  \<open>undefined\<close>: every change of the title is logged once, and nothing else is.
\<close>

theorem console_titles_remdups:
  assumes "console_run (mount g) es = Some (s, c)"
  shows "\<exists>ss. run_states (app_init g) es = Some ss
           \<and> title_entries c = remdups_adj (title_of (app_init g) # map title_of ss)"
proof -
  have "title_of (app_init g) = None" by (simp add: title_of_def app_init_def useForm_init_def useWatch_def)
  then have "remdups_adj ([] @ [title_of (app_init g)]) = title_entries [LogTitle None]" by simp
  from console_run_states [OF assms [unfolded mount_def] this] show ?thesis by simp
qed

theorem console_titles_remdups_witness:
  "\<exists>s c. console_run (mount sample_rng)
           [Input Title ''a'', Input Subtitle ''b'', Input Title ''a'', Input Title ''''] = Some (s, c)
     \<and> title_entries c = [None, Some ''a'', Some '''']"
proof -
  let ?es = "[Input Title ''a'', Input Subtitle ''b'', Input Title ''a'', Input Title '''']"
  obtain s c where r: "console_run (mount sample_rng) ?es = Some (s, c)"
    by (simp add: mount_def console_step_def app_init_def)
  from console_titles_remdups [OF r] obtain ss where
    "run_states (app_init sample_rng) ?es = Some ss"
    "title_entries c = remdups_adj (title_of (app_init sample_rng) # map title_of ss)" by blast
  with r show ?thesis
    by (auto simp: app_init_def title_of_def useWatch_def onChangeField_def useForm_init_def)
qed

end
