(* ===== verification/Styles.thy ===== *)
theory Styles
  imports App
begin

text \<open>
  The styled components that make up the preview (lines 190 to 246 of
  \<open>src/pages/main/index.tsx\<close>): \<open>Preview\<close>, \<open>Title\<close>, \<open>Divider\<close>, \<open>Subtitle\<close> and
  \<open>Category\<close>, each the list of its declarations as written, and the cascade that decides
  what the preview paints. The inline style the handlers assign beats the component's rule;
  an inline \<open>background\<close> that was never assigned (the empty string) leaves the rule's
  value in force.
\<close>

type_synonym declarations = "(string \<times> string) list"

definition Preview_css :: declarations where
  "Preview_css =
     [(''display'', ''flex''), (''flex-direction'', ''column''), (''align-items'', ''center''),
      (''margin-top'', ''16px''), (''margin-bottom'', ''16px''), (''width'', ''100%''),
      (''height'', ''20vh''), (''border'', ''1px solid #ccc''), (''background'', ''#000000'')]"

definition Title_css :: declarations where
  "Title_css =
     [(''display'', ''flex''), (''justify-content'', ''center''), (''overflow'', ''hidden''),
      (''margin-top'', ''36px''), (''width'', ''90%''), (''font-size'', ''36px''),
      (''color'', ''#ffffff'')]"

definition Divider_css :: declarations where
  "Divider_css =
     [(''width'', ''50%''), (''height'', ''1px''), (''background-color'', ''#ffffff''),
      (''margin-top'', ''12px''), (''margin-bottom'', ''12px'')]"

definition Subtitle_css :: declarations where
  "Subtitle_css =
     [(''display'', ''flex''), (''justify-content'', ''center''), (''overflow'', ''hidden''),
      (''width'', ''90%''), (''font-size'', ''18px''), (''color'', ''#ffffff'')]"

definition Category_css :: declarations where
  "Category_css =
     [(''display'', ''flex''), (''justify-content'', ''center''), (''margin-top'', ''32px''),
      (''overflow'', ''hidden''), (''width'', ''90%''), (''font-size'', ''13px''),
      (''color'', ''#ffffff'')]"

text \<open>The value a rule gives a property: its last declaration of it.\<close>

definition rule_value :: "declarations \<Rightarrow> string \<Rightarrow> string option" where
  "rule_value ds p = map_of (rev ds) p"

text \<open>The background the preview paints: the inline value if one was assigned, else the rule's.\<close>

definition computed_background :: "preview_style \<Rightarrow> string" where
  "computed_background st =
     (if background st \<noteq> [] then background st
      else case rule_value Preview_css ''background'' of Some v \<Rightarrow> v | None \<Rightarrow> ''transparent'')"

section \<open>Lemmas\<close>

lemma rule_value_Preview_background [simp]: "rule_value Preview_css ''background'' = Some ''#000000''"
  by (simp add: rule_value_def Preview_css_def)

lemma render_background_cascade: "v_background (render s) = computed_background (style s)"
  by (simp add: render_def computed_background_def)

end
