(* ===== verification/Layout.thy ===== *)
theory Layout
  imports Styles
begin

text \<open>
  The remaining styled components of \<open>src/pages/main/index.tsx\<close> (lines 170 to 188 and
  202 to 317) and the part of the rendered page they build that has behaviour: the
  \<open>InputContainer\<close>, a \<open>styled.form\<close>, with the three text inputs, the background buttons
  and the hidden file input (lines 110 to 164). A styled component is its HTML tag, its
  declarations and its nested rules (\<open>&::placeholder\<close>, \<open>&:hover\<close>), as written. The page
  is a tree of elements with their static attributes and text; the React props that are
  not attributes (\<open>value\<close>, \<open>onChange\<close>, \<open>onClick\<close>, \<open>ref\<close>) are the events of \<open>App\<close>.
\<close>

record styled =
  sc_tag :: string
  sc_decls :: declarations
  sc_nested :: "(string \<times> declarations) list"

text \<open>\<open>const Container = styled.div`...`\<close> (lines 170 to 174).\<close>

definition Container_sc :: styled where
  "Container_sc =
     \<lparr>sc_tag = ''div'',
      sc_decls = [(''width'', ''100%''), (''height'', ''100%''), (''padding'', ''24px 0'')],
      sc_nested = []\<rparr>"

text \<open>\<open>const ServiceTitle = styled.div`...`\<close> (lines 176 to 178).\<close>

definition ServiceTitle_sc :: styled where
  "ServiceTitle_sc =
     \<lparr>sc_tag = ''div'',
      sc_decls = [(''font-size'', ''40px'')],
      sc_nested = []\<rparr>"

text \<open>\<open>const Wrapper = styled.div`...`\<close> (lines 180 to 188).\<close>

definition Wrapper_sc :: styled where
  "Wrapper_sc =
     \<lparr>sc_tag = ''div'',
      sc_decls = [(''width'', ''50%''), (''height'', ''100%''), (''margin'', ''0 auto''),
       (''display'', ''flex''), (''flex-direction'', ''column''),
       (''padding'', ''24px'')],
      sc_nested = []\<rparr>"

text \<open>\<open>const RefreshContainer = styled.div`...`\<close> (lines 202 to 206).\<close>

definition RefreshContainer_sc :: styled where
  "RefreshContainer_sc =
     \<lparr>sc_tag = ''div'',
      sc_decls = [(''width'', ''100%''), (''display'', ''flex''),
       (''justify-content'', ''center'')],
      sc_nested = []\<rparr>"

text \<open>\<open>const InputContainer = styled.form`...`\<close> (lines 248 to 254).\<close>

definition InputContainer_sc :: styled where
  "InputContainer_sc =
     \<lparr>sc_tag = ''form'',
      sc_decls = [(''width'', ''100%''), (''display'', ''flex''),
       (''flex-direction'', ''column''), (''margin-top'', ''48px'')],
      sc_nested = []\<rparr>"

text \<open>\<open>const InputWrapper = styled.div`...`\<close> (lines 256 to 261).\<close>

definition InputWrapper_sc :: styled where
  "InputWrapper_sc =
     \<lparr>sc_tag = ''div'',
      sc_decls = [(''display'', ''flex''), (''gap'', ''10px''), (''padding-top'', ''24px''),
       (''padding-bottom'', ''24px'')],
      sc_nested = []\<rparr>"

text \<open>\<open>const TitleInput = styled.input`...`\<close> (lines 263 to 275).\<close>

definition TitleInput_sc :: styled where
  "TitleInput_sc =
     \<lparr>sc_tag = ''input'',
      sc_decls = [(''position'', ''relative''), (''width'', ''100%''), (''height'', ''30px''),
       (''font-size'', ''16px''), (''font-weight'', ''bold''), (''padding'', ''8px''),
       (''border-radius'', ''4px''), (''border'', ''1px solid #aaa'')],
      sc_nested = [(''&::placeholder'', [(''font-size'', ''16px'')])]\<rparr>"

text \<open>\<open>const InputDivider = styled.div`...`\<close> (lines 277 to 283).\<close>

definition InputDivider_sc :: styled where
  "InputDivider_sc =
     \<lparr>sc_tag = ''div'',
      sc_decls = [(''width'', ''100%''), (''height'', ''1px''),
       (''background-color'', ''#cccccc''), (''margin-top'', ''24px''),
       (''margin-bottom'', ''24px'')],
      sc_nested = []\<rparr>"

text \<open>\<open>const SelectContainer = styled.div`...`\<close> (lines 285 to 291).\<close>

definition SelectContainer_sc :: styled where
  "SelectContainer_sc =
     \<lparr>sc_tag = ''div'',
      sc_decls = [(''width'', ''100%''), (''display'', ''flex''), (''align-items'', ''center''),
       (''gap'', ''12px'')],
      sc_nested = []\<rparr>"

text \<open>\<open>const SelectTitle = styled.div`...`\<close> (lines 293 to 297).\<close>

definition SelectTitle_sc :: styled where
  "SelectTitle_sc =
     \<lparr>sc_tag = ''div'',
      sc_decls = [(''flex'', ''1''), (''font-size'', ''20px''), (''font-weight'', ''bold'')],
      sc_nested = []\<rparr>"

text \<open>\<open>const ButtonWrapper = styled.div`...`\<close> (lines 299 to 304).\<close>

definition ButtonWrapper_sc :: styled where
  "ButtonWrapper_sc =
     \<lparr>sc_tag = ''div'',
      sc_decls = [(''display'', ''flex''), (''flex'', ''3''), (''gap'', ''16px'')],
      sc_nested = []\<rparr>"

text \<open>\<open>const SelectButton = styled.button`...`\<close> (lines 306 to 317).\<close>

definition SelectButton_sc :: styled where
  "SelectButton_sc =
     \<lparr>sc_tag = ''button'',
      sc_decls = [(''flex'', ''1''), (''border'', ''none''), (''cursor'', ''pointer''),
       (''background-color'', ''#99ff99''), (''border-radius'', ''24px''),
       (''height'', ''40px'')],
      sc_nested = [(''&:hover'', [(''background-color'', ''#66ff66'')])]\<rparr>"

text \<open>An element of the page: its tag, its attributes and its children; or a text.\<close>

datatype node = Elem string "(string \<times> string) list" "node list" | Text string

text \<open>
  The \<open>InputContainer\<close> subtree as the JSX of lines 110 to 164 renders it: the
  \<open>InputWrapper\<close> with three \<open>TitleInput\<close>s (\<open>type='text'\<close> and their placeholders), then
  the dividers and \<open>SelectContainer\<close>s; the first holds the four \<open>SelectButton\<close>s
  (\<open>type='button'\<close>) and the hidden \<open>input type='file'\<close>.
\<close>

definition input_container_dom :: node where
  "input_container_dom =
     Elem (sc_tag InputContainer_sc) []
      [Elem (sc_tag InputWrapper_sc) []
         [Elem (sc_tag TitleInput_sc) [(''type'', ''text''), (''placeholder'', utf8 [236, 160, 156, 235, 170, 169, 236, 157, 132, 32, 236, 158, 133, 235, 160, 165, 237, 149, 180, 236, 163, 188, 236, 132, 184, 236, 154, 148])] [],
          Elem (sc_tag TitleInput_sc) [(''type'', ''text''), (''placeholder'', utf8 [235, 182, 128, 236, 160, 156, 235, 170, 169, 236, 157, 132, 32, 236, 158, 133, 235, 160, 165, 237, 149, 180, 236, 163, 188, 236, 132, 184, 236, 154, 148])] [],
          Elem (sc_tag TitleInput_sc) [(''type'', ''text''), (''placeholder'', utf8 [235, 182, 132, 235, 165, 152, 235, 143, 132, 32, 236, 158, 133, 235, 160, 165, 237, 149, 180, 235, 179, 180, 236, 139, 164, 235, 158, 152, 236, 154, 148, 63])] []],
       Elem (sc_tag InputDivider_sc) [] [],
       Elem (sc_tag SelectContainer_sc) []
         [Elem (sc_tag SelectTitle_sc) [] [Text (utf8 [235, 176, 176, 234, 178, 189, 236, 157, 128, 32, 236, 150, 180, 235, 150, 187, 234, 178, 140, 32, 237, 149, 152, 236, 139, 156, 234, 178, 160, 236, 150, 180, 236, 154, 148, 63])],
          Elem (sc_tag ButtonWrapper_sc) []
            [Elem (sc_tag SelectButton_sc) [(''type'', ''button'')] [Text (utf8 [235, 158, 156, 235, 141, 164, 32, 234, 183, 184, 235, 158, 152, 235, 148, 148, 236, 150, 184, 237, 138, 184])],
             Elem (sc_tag SelectButton_sc) [(''type'', ''button'')] [Text (utf8 [235, 158, 156, 235, 141, 164, 32, 235, 139, 168, 236, 131, 137])],
             Elem (sc_tag SelectButton_sc) [(''type'', ''button'')] [Text (utf8 [235, 158, 156, 235, 141, 164, 32, 236, 157, 180, 235, 175, 184, 236, 167, 128])],
             Elem ''input'' [(''type'', ''file''), (''accept'', ''image/*''), (''style'', ''display: none'')] [],
             Elem (sc_tag SelectButton_sc) [(''type'', ''button'')] [Text (utf8 [236, 157, 180, 235, 175, 184, 236, 167, 128, 32, 236, 151, 133, 235, 161, 156, 235, 147, 156])]]],
       Elem (sc_tag InputDivider_sc) [] [],
       Elem (sc_tag SelectContainer_sc) [] [Elem (sc_tag SelectTitle_sc) [] [Text (utf8 [234, 181, 172, 236, 132, 177, 32, 236, 154, 148, 236, 134, 140, 235, 138, 148, 236, 154, 148, 63])]],
       Elem (sc_tag InputDivider_sc) [] [],
       Elem (sc_tag SelectContainer_sc) [] [Elem (sc_tag SelectTitle_sc) [] [Text (utf8 [237, 133, 141, 236, 138, 164, 237, 138, 184, 236, 151, 144, 32, 237, 154, 168, 234, 179, 188, 235, 138, 148, 32, 236, 150, 180, 235, 150, 160, 236, 132, 184, 236, 154, 148, 63])]]]"

end
