(* ===== verification/Interleaving.thy ===== *)
theory Interleaving
  imports App
begin

text \<open>
  Properties of \<open>Main\<close> over interleavings of events: what the \<open>image\<close> state of
  \<open>useState\<close> can hold, the independence of typing from the background machinery, and the
  uploads that can be in flight at the same time.
\<close>

text \<open>A second sample upload (the first bytes of a GIF) for the scenarios.\<close>

definition sample_gif :: blob where
  "sample_gif = \<lparr>blob_type = ''image/gif'', blob_bytes = [71, 73, 70, 56]\<rparr>"

section \<open>Lemmas\<close>

lemma image_state_step:
  "app_step s e = Some (r, s') \<Longrightarrow> image_state s' = image_state s \<or> (\<exists>b. image_state s' = readAsDataURL b)"
  by (cases e)
     (auto simp: onClickRandomGradient_app_def onClickRandomColor_app_def onClickRandomImage_def
        onClickImageUploadButton_def run_handler_def file_input_onChange_def onChangeImage_def
        settle_fetch_def settle_read_def reader_onload_def Let_def
        split: if_splits prod.splits sum.splits list.splits option.splits task.splits
          fetch_outcome.splits read_outcome.splits)

lemmas handler_defs = onClickRandomGradient_app_def onClickRandomColor_app_def onClickRandomImage_def
  onClickImageUploadButton_def run_handler_def file_input_onChange_def onChangeImage_def
  settle_fetch_def settle_read_def reader_onload_def

lemma app_step_form_frame:
  "(\<forall>g w. e \<noteq> Input g w) \<Longrightarrow>
   app_step (s\<lparr>form := x\<rparr>) e = map_option (\<lambda>(r, s'). (r, s'\<lparr>form := x\<rparr>)) (app_step s e)"
  by (cases e)
     (auto simp: handler_defs Let_def split: prod.splits sum.splits list.splits task.splits
        fetch_outcome.splits read_outcome.splits)

lemma app_step_form_keep:
  "(\<forall>g w. e \<noteq> Input g w) \<Longrightarrow> app_step s e = Some (r, s') \<Longrightarrow> form s' = form s"
  by (cases e)
     (auto simp: handler_defs Let_def split: if_splits prod.splits sum.splits list.splits task.splits
        fetch_outcome.splits read_outcome.splits)

lemma app_step_picker_closed:
  "e \<noteq> ClickImageUpload \<Longrightarrow> \<not> picker_open s \<Longrightarrow> app_step s e = Some (r, s') \<Longrightarrow> \<not> picker_open s'"
  by (cases e)
     (auto simp: handler_defs Let_def split: if_splits prod.splits sum.splits list.splits task.splits
        fetch_outcome.splits read_outcome.splits)

section \<open>Properties\<close>

text \<open>
  C18. The \<open>image\<close> state, declared \<open>string | ArrayBuffer | null\<close>, only ever holds a
  string: the initial \<open>''\<close> or the data URL \<open>readAsDataURL\<close> produced for some file.
\<close>

theorem image_state_type:
  "reachable s \<Longrightarrow> image_state s = [] \<or> (\<exists>b. image_state s = readAsDataURL b)"
proof (induction rule: reachable.induct)
  case (init g)
  then show ?case by (simp add: app_init_def)
next
  case (step s e r s')
  then show ?case using image_state_step [OF step.hyps(2)] by auto
qed

theorem image_state_type_witness:
  "reachable (app_init sample_rng) \<and>
   (image_state (app_init sample_rng) = [] \<or> (\<exists>b. image_state (app_init sample_rng) = readAsDataURL b))"
proof -
  have r: "reachable (app_init sample_rng)" using valid_sample_rng by (rule reachable.init)
  from image_state_type [OF r] r show ?thesis by blast
qed

text \<open>
  C19. Typing into a field commutes with every other event except a click that opens the file
  dialog (which blocks typing) and typing into the same field: both orders are possible and
  reach the same state with the same error. Form edits and the background machinery do not
  interfere.
\<close>

theorem input_commutes:
  assumes in1: "app_step s (Input f v) = Some (None, s1)" and e: "app_step s1 e = Some (r, s2)"
    and "e \<noteq> ClickImageUpload" "\<forall>w. e \<noteq> Input f w"
  shows "\<exists>s3. app_step s e = Some (r, s3) \<and> app_step s3 (Input f v) = Some (None, s2)"
proof -
  from in1 have p: "\<not> picker_open s" and s1: "s1 = s\<lparr>form := onChangeField f v (form s)\<rparr>"
    by (simp_all split: if_splits)
  show ?thesis
  proof (cases "\<exists>g w. e = Input g w")
    case True
    then obtain g w where ew: "e = Input g w" by blast
    with assms(4) have "g \<noteq> f" by blast
    with e p show ?thesis
      by (auto simp: s1 ew onChangeField_def setValue_commute)
  next
    case False
    then have ni: "\<forall>g w. e \<noteq> Input g w" by blast
    from e obtain s3 where s3: "app_step s e = Some (r, s3)" and s2: "s2 = s3\<lparr>form := onChangeField f v (form s)\<rparr>"
      by (auto simp: s1 app_step_form_frame [OF ni])
    have "form s3 = form s" by (rule app_step_form_keep [OF ni s3])
    moreover have "\<not> picker_open s3" by (rule app_step_picker_closed [OF assms(3) p s3])
    ultimately show ?thesis using s3 s2 by simp
  qed
qed

theorem input_commutes_witness:
  "\<exists>s1 r s2 s3. app_step (app_init sample_rng) (Input Title ''x'') = Some (None, s1)
     \<and> app_step s1 ClickRandomColor = Some (r, s2)
     \<and> app_step (app_init sample_rng) ClickRandomColor = Some (r, s3)
     \<and> app_step s3 (Input Title ''x'') = Some (None, s2)"
proof -
  obtain s1 where in1: "app_step (app_init sample_rng) (Input Title ''x'') = Some (None, s1)"
    by (simp add: app_init_def)
  obtain r s2 where e: "app_step s1 ClickRandomColor = Some (r, s2)"
    using in1 by (auto simp: app_init_def)
  from input_commutes [OF in1 e] in1 e show ?thesis by blast
qed

text \<open>
  C20. Two uploads in flight: the file dialog is opened and closed on a PNG, then on a GIF, before
  either read completes; the GIF's read completes first. The older read completes last, and
  the preview and the \<open>image\<close> state show the PNG although the input holds the GIF.
\<close>

theorem older_upload_overwrites_newer:
  "\<exists>s. app_run (app_init sample_rng)
         [ClickImageUpload, PickerClose [sample_png], ClickImageUpload, PickerClose [sample_gif],
          ReaderSettle 1 ReadLoad, ReaderSettle 0 ReadLoad] = Some s
     \<and> file_selection s = [sample_gif] \<and> pending s = []
     \<and> image_state s = readAsDataURL sample_png
     \<and> abs_background (style s) = Some (UploadedImage (readAsDataURL sample_png))"
proof -
  have p: "list_all url_char_ok (readAsDataURL sample_png)"
    by (rule url_ok_readAsDataURL) (simp add: sample_png_def url_char_ok_def)
  have g: "list_all url_char_ok (readAsDataURL sample_gif)"
    by (rule url_ok_readAsDataURL) (simp add: sample_gif_def url_char_ok_def)
  have d: "[sample_gif] \<noteq> [sample_png]" by (simp add: sample_png_def sample_gif_def)
  show ?thesis
    using p g d
    by (simp add: app_init_def handler_defs remove_nth_def abs_background_onload_style Let_def)
qed

end
