(* ===== verification/Page.thy ===== *)
theory Page
  imports Layout Interleaving
begin

text \<open>
  The page around \<open>Main\<close>'s state machine: what the browser does by default with the events
  of the \<open>InputContainer\<close> form (HTML's form submission rules). A click on a submit button
  of a form, after its click handlers, submits the form; Enter in a text field submits it
  implicitly, unless the form has no submit button and more than one field that blocks
  implicit submission. Submitting navigates to the form's action, by default the page
  itself: the page reloads and \<open>Main\<close> mounts again with its initial state, losing the
  form, the background and every operation in flight. \<open>page_step\<close> adds that default
  action to \<open>app_step\<close>, and Enter in a text input as an event of its own.
\<close>

text \<open>The elements of a tree, in document order (the root first).\<close>

fun nodes :: "node \<Rightarrow> node list" where
  "nodes (Elem t a cs) = Elem t a cs # concat (map nodes cs)"
| "nodes (Text s) = [Text s]"

definition node_tag :: "node \<Rightarrow> string" where
  "node_tag n = (case n of Elem t _ _ \<Rightarrow> t | Text _ \<Rightarrow> [])"

definition node_attr :: "string \<Rightarrow> node \<Rightarrow> string option" where
  "node_attr k n = (case n of Elem _ a _ \<Rightarrow> map_of a k | Text _ \<Rightarrow> None)"

text \<open>A button's type: its \<open>type\<close> attribute if that is a known type, else \<open>submit\<close>.\<close>

definition button_type :: "node \<Rightarrow> string" where
  "button_type n =
     (case node_attr ''type'' n of
        Some t \<Rightarrow> if t \<in> {''submit'', ''reset'', ''button''} then t else ''submit''
      | None \<Rightarrow> ''submit'')"

definition input_types :: "string list" where
  "input_types =
     [''hidden'', ''text'', ''search'', ''tel'', ''url'', ''email'', ''password'', ''date'', ''month'',
      ''week'', ''time'', ''datetime-local'', ''number'', ''range'', ''color'', ''checkbox'', ''radio'',
      ''file'', ''submit'', ''image'', ''reset'', ''button'']"

text \<open>An input's type: its \<open>type\<close> attribute if that is a known type, else \<open>text\<close>.\<close>

definition input_type :: "node \<Rightarrow> string" where
  "input_type n =
     (case node_attr ''type'' n of
        Some t \<Rightarrow> if t \<in> set input_types then t else ''text''
      | None \<Rightarrow> ''text'')"

definition is_submit_button :: "node \<Rightarrow> bool" where
  "is_submit_button n \<longleftrightarrow>
     (node_tag n = ''button'' \<and> button_type n = ''submit'')
     \<or> (node_tag n = ''input'' \<and> input_type n \<in> {''submit'', ''image''})"

definition blocks_implicit_submission :: "node \<Rightarrow> bool" where
  "blocks_implicit_submission n \<longleftrightarrow>
     node_tag n = ''input'' \<and>
     input_type n \<in> {''text'', ''search'', ''tel'', ''url'', ''email'', ''password'', ''date'', ''month'',
                     ''week'', ''time'', ''datetime-local'', ''number''}"

text \<open>Whether Enter in a field of the form submits it (implicit submission).\<close>

definition enter_submits :: "node \<Rightarrow> bool" where
  "enter_submits f \<longleftrightarrow>
     list_ex is_submit_button (nodes f)
     \<or> length (filter blocks_implicit_submission (nodes f)) \<le> 1"

text \<open>The four \<open>SelectButton\<close>s in document order, and the one each click event is on.\<close>

definition select_buttons :: "node list" where
  "select_buttons = filter (\<lambda>n. node_tag n = sc_tag SelectButton_sc) (nodes input_container_dom)"

definition clicked_button :: "event \<Rightarrow> node option" where
  "clicked_button e =
     (case e of
        ClickRandomGradient \<Rightarrow> Some (select_buttons ! 0)
      | ClickRandomColor \<Rightarrow> Some (select_buttons ! 1)
      | ClickRandomImage \<Rightarrow> Some (select_buttons ! 2)
      | ClickImageUpload \<Rightarrow> Some (select_buttons ! 3)
      | _ \<Rightarrow> None)"

text \<open>Submitting the form reloads the page: \<open>Main\<close> mounts again.\<close>

definition reload :: "app \<Rightarrow> app" where
  "reload s = app_init (rng s)"

datatype page_event = UiEvent event | PressEnter field

definition page_step :: "app \<Rightarrow> page_event \<Rightarrow> (js_error option \<times> app) option" where
  "page_step s pe =
     (case pe of
        UiEvent e \<Rightarrow>
          (case app_step s e of
             None \<Rightarrow> None
           | Some (r, s') \<Rightarrow>
               Some (r, if (case clicked_button e of Some b \<Rightarrow> is_submit_button b | None \<Rightarrow> False)
                        then reload s' else s'))
      | PressEnter f \<Rightarrow>
          if picker_open s then None
          else Some (None, if enter_submits input_container_dom then reload s else s))"

section \<open>Lemmas\<close>

lemmas dom_defs = input_container_dom_def InputContainer_sc_def InputWrapper_sc_def TitleInput_sc_def
  InputDivider_sc_def SelectContainer_sc_def SelectTitle_sc_def ButtonWrapper_sc_def SelectButton_sc_def

lemmas html_defs = node_tag_def node_attr_def button_type_def input_type_def input_types_def
  is_submit_button_def blocks_implicit_submission_def

lemma form_fields:
  "length (filter blocks_implicit_submission (nodes input_container_dom)) = 3"
  by (simp add: dom_defs html_defs)

lemma form_no_submit_button: "\<not> list_ex is_submit_button (nodes input_container_dom)"
  by (simp add: dom_defs html_defs)

lemma length_select_buttons: "length select_buttons = 4"
  by (simp add: select_buttons_def dom_defs node_tag_def)

lemma select_buttons_not_submit: "i < 4 \<Longrightarrow> \<not> is_submit_button (select_buttons ! i)"
proof -
  assume "i < 4"
  then have "select_buttons ! i \<in> set select_buttons" by (simp add: length_select_buttons)
  then have "select_buttons ! i \<in> set (nodes input_container_dom)" by (simp add: select_buttons_def)
  with form_no_submit_button show ?thesis by (auto simp: list_ex_iff)
qed

section \<open>Properties\<close>

text \<open>
  C21. Enter in any of the three text inputs never submits the form, so the page never
  reloads and the state is kept: the form has no submit button and three fields that block
  implicit submission.
\<close>

theorem enter_keeps_state:
  "page_step s (PressEnter f) = (if picker_open s then None else Some (None, s))"
  using form_fields form_no_submit_button by (simp add: page_step_def enter_submits_def)

text \<open>
  C22. No click on the page submits the form: all four \<open>SelectButton\<close>s have
  \<open>type='button'\<close>, so every event has exactly the effect of its handler.
\<close>

theorem clicks_do_not_submit: "page_step s (UiEvent e) = app_step s e"
proof -
  have "\<not> (case clicked_button e of Some b \<Rightarrow> is_submit_button b | None \<Rightarrow> False)"
    by (simp add: clicked_button_def select_buttons_not_submit split: event.split)
  then show ?thesis by (simp add: page_step_def split: option.split)
qed

end
