(* ===== verification/Base64Ref.thy ===== *)
theory Base64Ref
  imports App
begin

text \<open>
  Base64 as RFC 4648 (section 4) specifies it, bit by bit: the bytes' bits are concatenated,
  most significant bit first, and cut into 6-bit groups, the last one filled with zero bits;
  each group indexes the alphabet, and \<open>=\<close> pads the text to a multiple of four
  characters. The encoder of \<open>DataUrl\<close>, which works on 24-bit groups with arithmetic, is
  proved equal to it.
\<close>

text \<open>The \<open>k\<close> low bits of \<open>n\<close>, most significant first.\<close>

fun bits_msb :: "nat \<Rightarrow> nat \<Rightarrow> bool list" where
  "bits_msb 0 n = []"
| "bits_msb (Suc k) n = odd (n div 2 ^ k) # bits_msb k n"

definition bits_val :: "bool list \<Rightarrow> nat" where
  "bits_val bs = foldl (\<lambda>acc b. 2 * acc + of_bool b) 0 bs"

function chunks6 :: "bool list \<Rightarrow> bool list list" where
  "chunks6 bs = (if bs = [] then [] else take 6 bs # chunks6 (drop 6 bs))"
  by pat_completeness auto
termination
  by (relation "measure length") auto

declare chunks6.simps [simp del]

definition b64_ref_digits :: "byte list \<Rightarrow> string" where
  "b64_ref_digits bytes =
     map (\<lambda>g. base64_alphabet ! bits_val (g @ replicate (6 - length g) False))
       (chunks6 (concat (map (\<lambda>b. bits_msb 8 (unat b)) bytes)))"

definition base64_ref :: "byte list \<Rightarrow> string" where
  "base64_ref bytes =
     (let ds = b64_ref_digits bytes in ds @ replicate ((4 - length ds mod 4) mod 4) (CHR ''=''))"

section \<open>Lemmas\<close>

lemma length_bits_msb [simp]: "length (bits_msb k n) = k"
  by (induction k) simp_all

lemma bits_msb_add: "bits_msb (j + k) n = bits_msb j (n div 2 ^ k) @ bits_msb k n"
  by (induction j) (simp_all add: div_exp_eq add.commute)

lemma foldl_bits:
  "foldl (\<lambda>acc b. 2 * acc + of_bool b) (a::nat) ys
     = a * 2 ^ length ys + foldl (\<lambda>acc b. 2 * acc + of_bool b) 0 ys"
proof (induction ys arbitrary: a)
  case (Cons y ys)
  show ?case
    using Cons.IH [of "2 * a + of_bool y"] Cons.IH [of "of_bool y"] by (simp add: algebra_simps)
qed simp

lemma bits_val_append: "bits_val (xs @ ys) = bits_val xs * 2 ^ length ys + bits_val ys"
  by (simp add: bits_val_def foldl_bits [of "foldl _ 0 xs"])

lemma bits_val_bits_msb [simp]: "bits_val (bits_msb k n) = n mod 2 ^ k"
proof (induction k)
  case (Suc k)
  have "bits_msb (Suc k) n = [odd (n div 2 ^ k)] @ bits_msb k n" by simp
  then have "bits_val (bits_msb (Suc k) n) = of_bool (odd (n div 2 ^ k)) * 2 ^ k + n mod 2 ^ k"
    by (simp only: bits_val_append Suc.IH) (simp add: bits_val_def)
  also have "\<dots> = n mod 2 ^ Suc k"
  proof -
    have "n mod 2 ^ Suc k = 2 ^ k * (n div 2 ^ k mod 2) + n mod 2 ^ k"
      by (simp only: power_Suc2 mod_mult2_eq)
    then show ?thesis
      by (cases "even (n div 2 ^ k)") (simp_all add: odd_iff_mod_2_eq_one even_iff_mod_2_eq_zero)
  qed
  finally show ?case .
qed (simp add: bits_val_def)

lemma chunks6_append:
  "length xs = 6 \<Longrightarrow> chunks6 (xs @ ys) = xs # chunks6 ys"
  by (subst chunks6.simps) auto

lemma bits_msb_small: "n < 2 ^ k \<Longrightarrow> bits_msb (j + k) n = replicate j False @ bits_msb k n"
proof -
  assume "n < 2 ^ k"
  then have "n div 2 ^ k = 0" by simp
  moreover have "bits_msb j 0 = replicate j False" by (induction j) simp_all
  ultimately show ?thesis by (simp add: bits_msb_add)
qed
lemma bits_msb_mod: "bits_msb k (n mod 2 ^ k) = bits_msb k n"
proof (induction k arbitrary: n)
  case (Suc k)
  have "n mod 2 ^ Suc k div 2 ^ k = n div 2 ^ k mod 2"
    using div_exp_mod_exp_eq [of n k 1] by simp
  moreover have "n mod 2 ^ Suc k mod 2 ^ k = n mod 2 ^ k"
    by (rule mod_mod_cancel) simp
  then have "bits_msb k (n mod 2 ^ Suc k) = bits_msb k n"
    using Suc.IH [of "n mod 2 ^ Suc k"] Suc.IH [of n] by simp
  ultimately show ?case by simp
qed simp

lemma div_mod_256: "c < 256 \<Longrightarrow> ((x::nat) * 256 + c) div 256 = x \<and> (x * 256 + c) mod 256 = c"
  by simp

lemma bits_msb_24:
  "bits_msb 24 n = bits_msb 6 (n div 262144) @ bits_msb 6 (n div 4096) @ bits_msb 6 (n div 64) @ bits_msb 6 n"
  using bits_msb_add [of 6 18 n] bits_msb_add [of 6 12 n] bits_msb_add [of 6 6 n] by simp

lemma bytes_bits_group24:
  "bits_msb 8 (unat a) @ bits_msb 8 (unat b) @ bits_msb 8 (unat c) = bits_msb 24 (group24 a b c)"
proof -
  let ?n = "group24 a b c"
  have a: "unat a < 256" "unat b < 256" "unat c < 256" by (simp_all add: unat_byte_lt)
  have g: "?n = (unat a * 256 + unat b) * 256 + unat c" by (simp add: group24_def)
  have "?n div 65536 = unat a" using a by (simp add: group24_def)
  moreover have "?n div 256 mod 256 = unat b" "?n mod 256 = unat c"
    using div_mod_256 [OF a(3), of "unat a * 256 + unat b"] div_mod_256 [OF a(2), of "unat a"]
    by (simp_all only: g)
  moreover have "bits_msb 24 ?n = bits_msb 8 (?n div 65536) @ bits_msb 8 (?n div 256) @ bits_msb 8 ?n"
    using bits_msb_add [of 8 16 ?n] bits_msb_add [of 8 8 ?n] by simp
  ultimately show ?thesis
    using bits_msb_mod [of 8 "?n div 256"] bits_msb_mod [of 8 ?n] by simp
qed

lemma digit_bits: "base64_alphabet ! bits_val (bits_msb 6 n) = b64_digit n"
  by (simp add: b64_digit_def)

lemma b64_ref_digits_Cons3:
  "b64_ref_digits (a # b # c # rest) =
     (let n = group24 a b c
      in [b64_digit (n div 262144), b64_digit (n div 4096), b64_digit (n div 64), b64_digit n])
     @ b64_ref_digits rest"
proof -
  let ?n = "group24 a b c" and ?r = "concat (map (\<lambda>b. bits_msb 8 (unat b)) rest)"
  have c: "concat (map (\<lambda>b. bits_msb 8 (unat b)) (a # b # c # rest))
        = bits_msb 6 (?n div 262144) @ bits_msb 6 (?n div 4096) @ bits_msb 6 (?n div 64) @ bits_msb 6 ?n @ ?r"
    using bytes_bits_group24 [of a b c] by (simp add: bits_msb_24)
  show ?thesis
    unfolding b64_ref_digits_def c by (simp add: chunks6_append b64_digit_def Let_def)
qed

lemma bits_val_zeros [simp]: "bits_val (replicate k False) = 0"
proof (induction k)
  case (Suc k)
  have "replicate (Suc k) False = [False] @ replicate k False" by simp
  then show ?case by (simp only: bits_val_append Suc.IH) (simp add: bits_val_def)
qed (simp add: bits_val_def)

lemma mul4_mod64: "(x::nat) * 4 mod 64 = x mod 16 * 4"
  using mod_mult_mult2 [of x 4 16] by simp

lemma mul16_mod64: "(x::nat) * 16 mod 64 = x mod 4 * 16"
  using mod_mult_mult2 [of x 16 4] by simp

lemma last_chunk: "0 < k \<Longrightarrow> k \<le> 6 \<Longrightarrow> chunks6 (bits_msb k n) = [bits_msb k n]"
proof -
  assume k: "0 < k" "k \<le> 6"
  have "bits_msb k n \<noteq> []" using k length_bits_msb [of k n] by (auto simp del: length_bits_msb)
  with k show ?thesis by (subst chunks6.simps) (simp add: chunks6.simps [of "[]"])
qed

lemma b64_ref_digits_2:
  "b64_ref_digits [a, b] =
     (let n = group24 a b 0 in [b64_digit (n div 262144), b64_digit (n div 4096), b64_digit (n div 64)])"
proof -
  let ?m = "unat a * 256 + unat b"
  have "bits_msb 8 (unat a) @ bits_msb 8 (unat b) = bits_msb 16 ?m"
    using bits_msb_add [of 8 8 ?m] bits_msb_mod [of 8 ?m] unat_byte_lt [of a] unat_byte_lt [of b]
    by simp
  also have "\<dots> = bits_msb 6 (?m div 1024) @ bits_msb 6 (?m div 16) @ bits_msb 4 ?m"
    using bits_msb_add [of 6 10 ?m] bits_msb_add [of 6 4 ?m] by simp
  finally have bits: "concat (map (\<lambda>b. bits_msb 8 (unat b)) [a, b])
      = bits_msb 6 (?m div 1024) @ bits_msb 6 (?m div 16) @ bits_msb 4 ?m" by simp
  have v: "bits_val (bits_msb 4 ?m @ replicate 2 False) = ?m mod 16 * 4"
    by (simp only: bits_val_append bits_val_bits_msb bits_val_zeros length_replicate) simp
  have L: "b64_ref_digits [a, b] =
      [base64_alphabet ! (?m div 1024 mod 64), base64_alphabet ! (?m div 16 mod 64),
       base64_alphabet ! (?m mod 16 * 4)]"
    unfolding b64_ref_digits_def bits using last_chunk [of 4 ?m] v by (simp add: chunks6_append)
  have n: "group24 a b 0 = ?m * 256" by (simp add: group24_def)
  have d: "?m * 256 div 262144 = ?m div 1024" "?m * 256 div 4096 = ?m div 16"
    "?m * 256 div 64 = ?m * 4" by simp_all
  show ?thesis
    by (simp only: L Let_def n d b64_digit_def mul4_mod64)
qed

lemma b64_ref_digits_1:
  "b64_ref_digits [a] = (let n = group24 a 0 0 in [b64_digit (n div 262144), b64_digit (n div 4096)])"
proof -
  let ?m = "unat a"
  have bits: "concat (map (\<lambda>b. bits_msb 8 (unat b)) [a]) = bits_msb 6 (?m div 4) @ bits_msb 2 ?m"
    using bits_msb_add [of 6 2 ?m] by simp
  have v: "bits_val (bits_msb 2 ?m @ replicate 4 False) = ?m mod 4 * 16"
    by (simp only: bits_val_append bits_val_bits_msb bits_val_zeros length_replicate) simp
  have L: "b64_ref_digits [a] = [base64_alphabet ! (?m div 4 mod 64), base64_alphabet ! (?m mod 4 * 16)]"
    unfolding b64_ref_digits_def bits using last_chunk [of 2 ?m] v by (simp add: chunks6_append)
  have n: "group24 a 0 0 = ?m * 65536" by (simp add: group24_def)
  have d: "?m * 65536 div 262144 = ?m div 4" "?m * 65536 div 4096 = ?m * 16" by simp_all
  show ?thesis
    by (simp only: L Let_def n d b64_digit_def mul16_mod64)
qed

lemma b64_ref_digits_Nil: "b64_ref_digits [] = []"
  by (simp add: b64_ref_digits_def chunks6.simps)

lemma base64_ref_Cons3:
  "base64_ref (a # b # c # rest) = take 4 (b64_ref_digits (a # b # c # rest)) @ base64_ref rest"
  by (simp add: base64_ref_def b64_ref_digits_Cons3 Let_def)

section \<open>Agreement with the encoder\<close>

lemma base64_encode_ref: "base64_encode bs = base64_ref bs"
proof (induction bs rule: base64_encode.induct)
  case (1 a b c rest)
  then show ?case by (simp add: base64_ref_Cons3 b64_ref_digits_Cons3 Let_def)
next
  case (2 a b)
  then show ?case by (simp add: base64_ref_def b64_ref_digits_2 Let_def)
next
  case (3 a)
  then show ?case by (simp add: base64_ref_def b64_ref_digits_1 Let_def numeral_2_eq_2)
next
  case 4
  then show ?case by (simp add: base64_ref_def b64_ref_digits_Nil)
qed

text \<open>The reference reproduces the test vectors of RFC 4648, section 10: \<open>fo\<close> and \<open>foobar\<close>.\<close>

lemma base64_ref_test_vectors:
  "base64_ref [102, 111] = ''Zm8=''" "base64_ref [102, 111, 111, 98, 97, 114] = ''Zm9vYmFy''"
  by code_simp+

end
