(* ===== verification/Spec2Isabelle.thy ===== *)
theory Spec2Isabelle
  imports Console Styles Page Base64Ref
begin

text \<open>
  \<^bold>\<open>A verification model of the thumbnail editor.\<close>

  The repository is one React component, \<open>Main\<close> in \<open>src/pages/main/index.tsx\<close>: three text
  inputs (title, subtitle, category) held by react-hook-form, a preview element whose texts
  show the inputs or Korean placeholders, and four background buttons that assign the
  preview's inline style: a random gradient, a random colour (both from \<open>randomColor\<close>), a
  random remote image (\<open>fetch\<close> of an image service, applied in the promise's \<open>then\<close>) and an
  upload (a hidden file input whose file \<open>FileReader.readAsDataURL\<close> turns into a data URL in
  \<open>onload\<close>). The rest of the file (lines 170 to 317) is styled-components CSS.

  \<^bold>\<open>Theories and what they model.\<close>
  \<^item> \<open>Prelude\<close>: JavaScript string indexing (\<open>undefined\<close> out of range), JSX truthiness of
    \<open>string | undefined\<close>, UTF-8 literals, bit length; shared lemmas.
  \<^item> \<open>JsNumber\<close>: the doubles \<open>Math.random()\<close> returns (\<open>m / 2^e\<close>, \<open>m < 2^53\<close>,
    \<open>e \<le> 1074\<close>), their IEEE product with an integer (round to nearest, ties to even),
    \<open>Math.floor\<close>, and the decimal text of an integer. Main lemma: \<open>Math.floor(r * n) < n\<close>
    for every such \<open>r\<close>, proved from a half-ulp error bound; multiplication by a power of two
    is exact. \<open>udouble_val\<close> is the exact rational value of a double.
  \<^item> \<open>RandomColor\<close>: \<open>hexString\<close>, \<open>randomColor\<close> (its loop as \<open>color_loop\<close>, a \<open>function\<close>
    with the measure \<open>6 - i\<close>, and as written, \<open>while_option\<close> over \<open>(i, hexCode, stream)\<close>
    in \<open>randomColor_while\<close>), \<open>Math.random\<close> as a stream consumed from the front.
  \<^item> \<open>Form\<close>: react-hook-form's values, default values and dirty flags; \<open>setValue\<close> (from
    each input's \<open>onChange\<close>), \<open>reset\<close> (in \<open>resetInput\<close>), \<open>useWatch\<close>; the preview texts.
  \<^item> \<open>Background\<close>: the preview's inline style; \<open>onClickRandomGradient\<close>,
    \<open>onClickRandomColor\<close>, the fetch's \<open>then\<close> and the reader's \<open>onload\<close> assignments; the
    CSSOM rule that the \<open>background\<close> shorthand resets \<open>background-size\<close> and that a value
    which does not parse is ignored; a parser for the three forms written; the spec's
    \<open>BackgroundDescriptor\<close> and \<open>abs_background\<close>, which reads it back from a style.
  \<^item> \<open>DataUrl\<close>: the uploaded blob (bytes as \<open>8 word\<close>), base64 as \<open>readAsDataURL\<close> writes
    it, a decoder, and their round trip.
  \<^item> \<open>Base64Ref\<close>: base64 as RFC 4648 specifies it on bit strings (\<open>base64_ref\<close>), checked
    on the RFC's test vectors and proved equal to the 24-bit-group encoder of \<open>DataUrl\<close>.
  \<^item> \<open>App\<close>: the whole component as a state machine. The state is a record of the form
    state, the style, the \<open>image\<close> state, the random stream, the operations in flight (fetches
    and reads), the upload promise count and the file input. \<open>app_step\<close> takes one event
    (a user action or the completion of any operation in flight, in any order) and returns
    the error the handler raised, if any, and the next state; \<open>reachable\<close> is the inductive
    set of states from \<open>app_init\<close>; \<open>render\<close> is what the preview shows.
  \<^item> \<open>Console\<close>: what \<open>Main\<close> writes to the console, \<open>useEffect(() => console.log(title),
    [title])\<close> and \<open>console.log(file)\<close> in \<open>onload\<close>: \<open>console_step\<close> wraps \<open>app_step\<close>,
    appending what the handler logs and then what the effect logs after the render.
  \<^item> \<open>Interleaving\<close>: properties of \<open>App\<close> over orders of events (frame lemmas: an event
    other than typing neither reads nor writes the form).
  \<^item> \<open>Styles\<close>: the styled components inside the preview (\<open>Preview\<close>, \<open>Title\<close>,
    \<open>Divider\<close>, \<open>Subtitle\<close>, \<open>Category\<close>) as their declaration lists, and the cascade: the
    inline style the handlers assign beats the rule, whose \<open>#000000\<close> is painted until then.
  \<^item> \<open>Layout\<close>: every other styled component (tag, declarations, nested rules) and the
    rendered \<open>InputContainer\<close> subtree (a \<open>form\<close>) as a tree of elements.
  \<^item> \<open>Page\<close>: HTML's form submission rules (button types, implicit submission on Enter)
    and \<open>page_step\<close>, which adds the browser's default action to \<open>app_step\<close>: a
    submission would reload the page and mount \<open>Main\<close> afresh.
  \<^item> This theory: the spec's abstract model (fields and active descriptor), the abstraction
    \<open>abs_app\<close>, and the properties that span the components.

  \<^bold>\<open>What is proved.\<close>
  Bounds: the random colour is always \<open>#\<close> and six hex digits and the gradient angle lies in
  \<open>[0, 360)\<close> under IEEE rounding, so the string index never yields \<open>undefined\<close> (C1, C3);
  \<open>randomColor\<close> consumes exactly six values and its digits are the top four bits of each
  (C2). Form: edits show verbatim or fall back to the placeholder (C4); \<open>resetInput\<close> clears
  everything (C5). Round trip: the uploaded data URL decodes to the file (C6). Errors: fetch
  and read failures change nothing (C7, C8); an empty file selection raises \<open>TypeError\<close>
  (C13). Refinement: each step maps to the spec's operation under \<open>abs_app\<close> (C9), and the
  preview is the spec's rendering of the abstract state except for the cover flag (C15);
  every fetch response, whatever its status, is shown uncovered (C12), where the spec covers
  a remote image. Invariants by rule induction over \<open>reachable\<close>: the style always shows a
  well-formed descriptor (C10); no default is ever set, so \<open>resetInput\<close> is dead code (C14);
  the \<open>image\<close> state only holds \<open>''\<close> or a data URL (C18). Frame: only four events change the
  style (C11). Loops: the \<open>for\<close> loop as written terminates after six iterations (C16).
  Console: the logged titles are the run's titles with adjacent repetitions removed (C17).
  Interleavings: typing commutes with the background events (C19); two uploads can be in
  flight and the older one can win (C20). Page: Enter in a text input never submits the
  form (three fields block implicit submission and there is no submit button, C21), and no
  click submits it (C22), so the page never reloads and loses its state.

  Supporting results that are not claims: the \<open>while_option\<close> form of the loop agrees with
  \<open>color_loop\<close>; multiplying a double by a power of two is exact, while some
  \<open>Math.random() * 360\<close> rounds up to an integer (\<open>fl_mul_360_rounds_up\<close>); the base64
  encoder of the upload model agrees with RFC 4648's bit-level definition and its test
  vectors (\<open>Base64Ref\<close>).

  \<^bold>\<open>Bounds and fuel.\<close> No fuel is needed: the only loop is \<open>randomColor\<close>'s six iterations,
  a \<open>function\<close> with a measure, and its \<open>while_option\<close> form is proved to return.
  \<open>Math.random\<close> is an infinite stream, so a handler never runs out of random values;
  \<open>valid_rng\<close> states ECMAScript's promise that each is a double in \<open>[0, 1)\<close>. The parser's
  URL check follows CSS Syntax's url token. The CSS parser accepts only the three forms the
  handlers write (hex colour, \<open>linear-gradient(<n>deg, c, c)\<close>, \<open>url(...)\<close>); any other value
  is ignored by the assignment, as CSSOM ignores values that do not parse. The assigned
  string is kept as written (CSSOM's serialisation of colours is not modelled).

  \<^bold>\<open>Not modelled.\<close> The layout the styled components' declarations produce (sizes,
  margins, fonts: the declarations are data of the model, but no theorem is about geometry),
  the parts of the page outside the form besides the preview (their JSX has no behaviour),
  React's rendering machinery beyond the value of the JSX expressions (one render per event;
  StrictMode's doubled effects in development are not modelled), the form's validation (no
  rules are registered), unmounting
  (the handlers would then find no preview element), the image service's behaviour (a
  response is any status and URL), and the decoding of images by the browser.
\<close>

section \<open>The spec's abstract model\<close>

text \<open>
  The spec describes the editor by two slots: the three form fields and the active background
  descriptor, with no other hidden state. \<open>spec_step\<close> is the spec's contract for
  \<open>setField\<close>, \<open>resetAll\<close> and the four background pickers (a new descriptor replaces the
  active one; a failure changes nothing); \<open>spec_render\<close> is the spec's preview renderer.
\<close>

record spec_state =
  sfields :: "field \<Rightarrow> string"
  sactive :: "descriptor option"

datatype spec_op = SetField field string | ResetAll | Select descriptor | NoChange

definition spec_step :: "spec_state \<Rightarrow> spec_op \<Rightarrow> spec_state" where
  "spec_step \<sigma> op = (case op of
     SetField f v \<Rightarrow> \<sigma>\<lparr>sfields := (sfields \<sigma>)(f := v)\<rparr>
   | ResetAll \<Rightarrow> \<sigma>\<lparr>sfields := (\<lambda>_. [])\<rparr>
   | Select d \<Rightarrow> \<sigma>\<lparr>sactive := Some d\<rparr>
   | NoChange \<Rightarrow> \<sigma>)"

definition descriptor_css :: "descriptor \<Rightarrow> string" where
  "descriptor_css d = (case d of
     Gradient a c1 c2 \<Rightarrow> css_text (CssGradient a c1 c2)
   | SolidColor c \<Rightarrow> c
   | RemoteImage u \<Rightarrow> css_text (CssUrl u)
   | UploadedImage u \<Rightarrow> css_text (CssUrl u))"

definition spec_text :: "field \<Rightarrow> spec_state \<Rightarrow> string" where
  "spec_text f \<sigma> = (if sfields \<sigma> f = [] then placeholder f else sfields \<sigma> f)"

definition spec_render :: "spec_state \<Rightarrow> view" where
  "spec_render \<sigma> =
     \<lparr>v_title = spec_text Title \<sigma>, v_subtitle = spec_text Subtitle \<sigma>,
      v_category = spec_text Category \<sigma>,
      v_background = (case sactive \<sigma> of None \<Rightarrow> ''#000000'' | Some d \<Rightarrow> descriptor_css d),
      v_cover = (case sactive \<sigma> of
                   Some (RemoteImage _) \<Rightarrow> True | Some (UploadedImage _) \<Rightarrow> True | _ \<Rightarrow> False)\<rparr>"

text \<open>The abstraction of the component's state: the watched values and the displayed descriptor.\<close>

definition abs_app :: "app \<Rightarrow> spec_state" where
  "abs_app s =
     \<lparr>sfields = (\<lambda>f. case useWatch f (form s) of None \<Rightarrow> [] | Some v \<Rightarrow> v),
      sactive = abs_background (style s)\<rparr>"

definition gradient_descriptor :: "rng \<Rightarrow> descriptor" where
  "gradient_descriptor g =
     Gradient (math_floor (fl_mul_nat (g !! 12) 360)) (fst (randomColor g)) (fst (randomColor (sdrop 6 g)))"

text \<open>What the spec says an event does, in the state it happens in.\<close>

definition spec_op_of :: "app \<Rightarrow> event \<Rightarrow> spec_op" where
  "spec_op_of s e = (case e of
     Input f v \<Rightarrow> SetField f v
   | ClickRandomGradient \<Rightarrow> Select (gradient_descriptor (rng s))
   | ClickRandomColor \<Rightarrow> Select (SolidColor (fst (randomColor (rng s))))
   | FetchSettle i (FetchResponse status u) \<Rightarrow> Select (RemoteImage u)
   | ReaderSettle i ReadLoad \<Rightarrow>
       (case pending s ! i of ReadTask b \<Rightarrow> Select (UploadedImage (readAsDataURL b)) | FetchTask \<Rightarrow> NoChange)
   | _ \<Rightarrow> NoChange)"

text \<open>An event whose URL, if it carries one, is a valid CSS url token.\<close>

definition event_url_ok :: "app \<Rightarrow> event \<Rightarrow> bool" where
  "event_url_ok s e = (case e of
     FetchSettle i (FetchResponse status u) \<Rightarrow> list_all url_char_ok u
   | ReaderSettle i ReadLoad \<Rightarrow>
       (case pending s ! i of ReadTask b \<Rightarrow> list_all url_char_ok (readAsDataURL b) | FetchTask \<Rightarrow> True)
   | _ \<Rightarrow> True)"

section \<open>Lemmas\<close>

lemma sfields_setValue:
  "(\<lambda>g. case useWatch g (onChangeField f v fs) of None \<Rightarrow> [] | Some x \<Rightarrow> x) =
   (\<lambda>g. case useWatch g fs of None \<Rightarrow> [] | Some x \<Rightarrow> x)(f := v)"
  by (simp add: fun_eq_iff useWatch_def onChangeField_def)

lemma abs_background_gradient_of:
  "valid_rng g \<Longrightarrow>
   abs_background (st\<lparr>background := css_text (gradient_of g), backgroundSize := ''initial''\<rparr>) =
     Some (gradient_descriptor g)"
  using gradient_of_wf [of g] abs_background_set_gradient
  by (simp add: gradient_of_def gradient_descriptor_def css_wf_def del: css_text_def)

lemma abs_background_css:
  "abs_background st = Some d \<Longrightarrow> parse_css_background (background st) = Some v \<Longrightarrow>
   descriptor_css d = css_text v"
  by (auto simp: abs_background_def descriptor_css_def css_text_def
      split: css_background.splits if_splits)

lemma abs_background_Some_parse:
  "abs_background st = Some d \<Longrightarrow> \<exists>v. parse_css_background (background st) = Some v"
  by (auto simp: abs_background_def split: option.splits)

lemma preview_text_abs: "preview_text f (form s) = spec_text f (abs_app s)"
  by (simp add: preview_text_def spec_text_def abs_app_def js_or_placeholder_def split: option.split)

section \<open>Properties\<close>

text \<open>
  C9. The component refines the spec's abstract model: from a reachable state, every event
  whose URL is a valid CSS url token changes the abstract state (the watched field values and
  the displayed descriptor) exactly as the spec's operation for that event does.
\<close>

theorem refines_spec:
  assumes "reachable s" and "app_step s e = Some (r, s')" and "event_url_ok s e"
  shows "abs_app s' = spec_step (abs_app s) (spec_op_of s e)"
proof -
  have v: "valid_rng (rng s)" using reachable_app_inv [OF assms(1)] by (simp add: app_inv_def)
  show ?thesis
  proof (cases e)
    case (Input f v)
    with assms(2) show ?thesis
      by (auto simp: abs_app_def spec_step_def spec_op_of_def sfields_setValue split: if_splits)
  next
    case ClickRandomGradient
    with assms(2) v show ?thesis
      by (auto simp: abs_app_def spec_step_def spec_op_of_def onClickRandomGradient_app_def
          onClickRandomGradient_eq abs_background_gradient_of split: if_splits)
  next
    case ClickRandomColor
    with assms(2) v show ?thesis
      by (auto simp: abs_app_def spec_step_def spec_op_of_def onClickRandomColor_app_def
          onClickRandomColor_eq abs_background_set_color randomColor_hex_color split: if_splits)
  next
    case (PickerClose sel)
    with assms(2) show ?thesis
      by (auto simp: abs_app_def spec_step_def spec_op_of_def run_handler_def file_input_onChange_def
          onChangeImage_def split: if_splits list.splits)
  next
    case (FetchSettle i out)
    with assms(2,3) show ?thesis
      by (auto simp: abs_app_def spec_step_def spec_op_of_def event_url_ok_def settle_fetch_def
          abs_background_fetch_then split: if_splits fetch_outcome.splits)
  next
    case (ReaderSettle i out)
    with assms(2,3) show ?thesis
      by (auto simp: abs_app_def spec_step_def spec_op_of_def event_url_ok_def settle_read_def
          reader_onload_def abs_background_onload_style Let_def
          split: if_splits read_outcome.splits task.splits)
  qed (use assms(2) in \<open>auto simp: abs_app_def spec_step_def spec_op_of_def onClickRandomImage_def
          onClickImageUploadButton_def split: if_splits\<close>)
qed

theorem refines_spec_witness:
  "reachable (app_init sample_rng) \<and> event_url_ok (app_init sample_rng) ClickRandomColor
   \<and> (\<exists>r s'. app_step (app_init sample_rng) ClickRandomColor = Some (r, s')
         \<and> abs_app s' = spec_step (abs_app (app_init sample_rng)) (spec_op_of (app_init sample_rng) ClickRandomColor))"
proof -
  have r: "reachable (app_init sample_rng)" using valid_sample_rng by (rule reachable.init)
  have u: "event_url_ok (app_init sample_rng) ClickRandomColor" by (simp add: event_url_ok_def)
  obtain r' s' where st: "app_step (app_init sample_rng) ClickRandomColor = Some (r', s')"
    by (simp add: app_init_def)
  from refines_spec [OF r st u] r u st show ?thesis by blast
qed

text \<open>
  C15. In every reachable state the preview's three texts and its painted background are the
  spec's rendering of the abstract state (the field values and the active descriptor): no
  hidden state decides them. Only whether an image is scaled to cover is not covered by this.
\<close>

theorem render_matches_spec:
  "reachable s \<Longrightarrow> render s = (spec_render (abs_app s))\<lparr>v_cover := v_cover (render s)\<rparr>"
proof -
  assume "reachable s"
  then have ok: "style_ok (style s)" by (simp add: reachable_app_inv [THEN app_inv_def [THEN iffD1]])
  have bg: "(if background (style s) = [] then ''#000000'' else background (style s)) =
             (case abs_background (style s) of None \<Rightarrow> ''#000000'' | Some d \<Rightarrow> descriptor_css d)"
  proof (cases "background (style s) = []")
    case True
    then show ?thesis by (simp add: abs_background_def)
  next
    case False
    with ok obtain d where d: "abs_background (style s) = Some d"
      by (auto simp: style_ok_def split: option.splits)
    then obtain v where v: "parse_css_background (background (style s)) = Some v"
      by (blast dest: abs_background_Some_parse)
    with ok have "css_text v = background (style s)" by (simp add: style_ok_def bg_printed_def)
    with False d v show ?thesis by (simp add: abs_background_css)
  qed
  show ?thesis
    using bg by (simp add: render_def spec_render_def preview_text_abs abs_app_def)
qed

theorem render_matches_spec_witness:
  "reachable (app_init sample_rng) \<and>
   render (app_init sample_rng) =
     (spec_render (abs_app (app_init sample_rng)))\<lparr>v_cover := v_cover (render (app_init sample_rng))\<rparr>"
proof -
  have r: "reachable (app_init sample_rng)" using valid_sample_rng by (rule reachable.init)
  from render_matches_spec [OF r] r show ?thesis by simp
qed

end
